theory Spec2Isabelle
  imports Complex_Main
begin

section \<open>Values of the player table\<close>

text \<open>
  The development follows \<^verbatim>\<open>app_web_fixed.py\<close>, the later of the two files.
  \<^verbatim>\<open>app_web.py\<close> has the same draft handlers, the same live score and the same
  stack score and equity formulas without the \<^verbatim>\<open>try/except\<close> guards, and a
  \<^verbatim>\<open>process_data\<close> with the same ranking lines but without the filling and
  cleaning steps.

  A finite Python float is a real number, one that is a double; \<open>NaN\<close>, the value
  pandas uses for a missing entry, is explicit; infinities are left out.  The products and
  sums of the live score and of the equity are rounded as IEEE-754 double operations do
  (\<open>fl\<close> below).  A cell of a column that pandas holds at dtype \<^verbatim>\<open>object\<close> is either
  such a float or \<open>Obj\<close>: a Python object that \<^verbatim>\<open>float()\<close> and \<^verbatim>\<open>int()\<close>
  reject and on which float arithmetic raises \<^verbatim>\<open>TypeError\<close> (a non-numeric string
  such as \<^verbatim>\<open>'abc'\<close>).
\<close>

datatype float64 = Num real | NaN

datatype cell = Flt float64 | Obj

datatype error = TypeError | ValueError

text \<open>
  One row of the DataFrame, with every column the program reads or writes.  The columns
  \<open>ADP\<close> and \<open>FinalAdjGPP\<close>, which are ranked and standardised, are float columns; a
  missing name, position or team is \<open>None\<close>.
\<close>

record row =
  ID :: int
  Name :: "string option"
  Position :: "string option"
  Team :: "string option"
  ADP :: float64
  FinalAdjGPP :: float64
  TeamRank :: cell
  R2Games :: cell
  R3Games :: cell
  FinalsGames :: cell
  R2Mult :: cell
  R3Mult :: cell
  FinalsMult :: cell
  ShutdownRisk :: cell
  FinalAdjGPP_Rank :: int
  ADP_Rank :: int
  ValueScore :: int
  zFinal :: float64
  zADP :: float64
  ValueZ :: float64
  ValueAlert :: bool
  LiveScore :: float64

section \<open>Float and column operations\<close>

text \<open>
  Rounding to the nearest double, ties to the even significand: 53 significant bits, the
  spacing of the subnormal numbers below \<open>2 powr - 1022\<close>.  A result beyond the largest
  double, which Python turns into an infinity, is not covered.
\<close>

definition rne :: "real \<Rightarrow> int" where
  "rne y =
     (let n = \<lfloor>y\<rfloor>; d = y - of_int n
      in if d < 1 / 2 then n else if 1 / 2 < d then n + 1 else if even n then n else n + 1)"

definition fl :: "real \<Rightarrow> real" where
  "fl x =
     (if x = 0 then 0
      else let e = max \<lfloor>log 2 \<bar>x\<bar>\<rfloor> (- 1022);
               q = 2 powr (of_int e - 52)
           in of_int (rne (x / q)) * q)"

text \<open>
  Arithmetic and comparison on floats: \<open>NaN\<close> propagates and compares false; a product
  and a sum are the exact result rounded once.
\<close>

fun fmul :: "float64 \<Rightarrow> float64 \<Rightarrow> float64" where
  "fmul (Num a) (Num b) = Num (fl (a * b))"
| "fmul _ _ = NaN"

fun fadd :: "float64 \<Rightarrow> float64 \<Rightarrow> float64" where
  "fadd (Num a) (Num b) = Num (fl (a + b))"
| "fadd _ _ = NaN"

fun fsub :: "float64 \<Rightarrow> float64 \<Rightarrow> float64" where
  "fsub (Num a) (Num b) = Num (a - b)"
| "fsub _ _ = NaN"

fun fneg :: "float64 \<Rightarrow> float64" where
  "fneg (Num a) = Num (- a)"
| "fneg NaN = NaN"

fun fgt :: "float64 \<Rightarrow> real \<Rightarrow> bool" where
  "fgt (Num a) b = (a > b)"
| "fgt NaN b = False"

fun fge :: "float64 \<Rightarrow> real \<Rightarrow> bool" where
  "fge (Num a) b = (a \<ge> b)"
| "fge NaN b = False"

fun fle :: "float64 \<Rightarrow> real \<Rightarrow> bool" where
  "fle (Num a) b = (a \<le> b)"
| "fle NaN b = False"

text \<open>\<^verbatim>\<open>fillna(v)\<close> on one entry, of a float column and of an object column.\<close>

fun fillna :: "real \<Rightarrow> float64 \<Rightarrow> float64" where
  "fillna v NaN = Num v"
| "fillna v (Num a) = Num a"

fun fillna_cell :: "real \<Rightarrow> cell \<Rightarrow> cell" where
  "fillna_cell v (Flt NaN) = Flt (Num v)"
| "fillna_cell v c = c"

text \<open>The entries of a float column that are not missing.\<close>

fun observed :: "float64 list \<Rightarrow> real list" where
  "observed [] = []"
| "observed (Num x # col) = x # observed col"
| "observed (NaN # col) = observed col"

text \<open>\<^verbatim>\<open>Series.max()\<close>: the largest entry that is not missing, \<open>NaN\<close> when there is none.\<close>

definition series_max :: "float64 list \<Rightarrow> float64" where
  "series_max col = (case observed col of [] \<Rightarrow> NaN | v # vs \<Rightarrow> Num (foldl max v vs))"

text \<open>
  \<^verbatim>\<open>Series.sum()\<close> of a float column: the missing entries count as 0 and numpy adds
  the doubles up in its pairwise order.  Fewer than 8 entries are added from left to right.
  Up to 128 entries are added in 8 running sums, entry \<open>i\<close> into sum \<open>i mod 8\<close>; the 8
  sums are combined as a balanced tree and what is left over beyond the last full group of
  8 is added from left to right.  A longer column is split in two, the first part a
  multiple of 8 long, and the sums of the parts are added.
\<close>

definition add_all :: "real \<Rightarrow> real list \<Rightarrow> real" where
  "add_all s xs = foldl (\<lambda>s x. fl (s + x)) s xs"

fun lanes :: "real list \<Rightarrow> real list \<Rightarrow> real list \<times> real list" where
  "lanes r xs =
     (if 8 \<le> length xs
      then lanes (map (\<lambda>(a, b). fl (a + b)) (zip r (take 8 xs))) (drop 8 xs)
      else (r, xs))"

declare lanes.simps [simp del]

definition block_sum :: "real list \<Rightarrow> real" where
  "block_sum xs =
     (case lanes (take 8 xs) (drop 8 xs) of
        (r, rest) \<Rightarrow>
          add_all (fl (fl (fl (r ! 0 + r ! 1) + fl (r ! 2 + r ! 3)) +
                       fl (fl (r ! 4 + r ! 5) + fl (r ! 6 + r ! 7)))) rest)"

definition half8 :: "nat \<Rightarrow> nat" where
  "half8 n = n div 2 - (n div 2) mod 8"

function pairwise_sum :: "real list \<Rightarrow> real" where
  "pairwise_sum xs =
     (if length xs < 8 then add_all 0 xs
      else if length xs \<le> 128 then block_sum xs
      else fl (pairwise_sum (take (half8 (length xs)) xs) +
               pairwise_sum (drop (half8 (length xs)) xs)))"
  by pat_completeness auto
termination
proof (relation "measure length")
  show "wf (measure length)" by simp
next
  fix xs :: "real list"
  assume "\<not> length xs < 8" "\<not> length xs \<le> 128"
  then have "0 < length xs" by linarith
  then have "length xs div 2 < length xs" by simp
  moreover have "half8 (length xs) \<le> length xs div 2"
    by (simp add: half8_def)
  ultimately show "(take (half8 (length xs)) xs, xs) \<in> measure length"
    by simp
next
  fix xs :: "real list"
  assume "\<not> length xs < 8" "\<not> length xs \<le> 128"
  then have "64 \<le> length xs div 2" by linarith
  moreover have "(length xs div 2) mod 8 < 8" by simp
  ultimately have "0 < half8 (length xs)"
    unfolding half8_def by linarith
  then show "(drop (half8 (length xs)) xs, xs) \<in> measure length"
    using \<open>\<not> length xs < 8\<close> by simp
qed

declare pairwise_sum.simps [simp del]

definition series_sum :: "float64 list \<Rightarrow> real" where
  "series_sum col = pairwise_sum (map (\<lambda>c. case c of NaN \<Rightarrow> 0 | Num x \<Rightarrow> x) col)"

text \<open>
  \<^verbatim>\<open>Series.rank(ascending=..., method='min')\<close>: one plus the number of entries that
  come strictly before; a missing entry keeps \<open>NaN\<close> as its rank.
\<close>

definition rank_min :: "bool \<Rightarrow> float64 list \<Rightarrow> float64 list" where
  "rank_min ascending col =
     map (\<lambda>c. case c of
            NaN \<Rightarrow> NaN
          | Num v \<Rightarrow> Num (real (Suc (length (filter (\<lambda>w. if ascending then w < v else v < w)
                                                  (observed col))))))
         col"

text \<open>Python's \<^verbatim>\<open>int()\<close> of a float truncates towards zero.\<close>

definition trunc :: "real \<Rightarrow> int" where
  "trunc x = (if 0 \<le> x then \<lfloor>x\<rfloor> else \<lceil>x\<rceil>)"

text \<open>\<^verbatim>\<open>astype(int)\<close> raises on a column with a missing entry.\<close>

fun astype_int :: "float64 list \<Rightarrow> error + int list" where
  "astype_int [] = Inr []"
| "astype_int (NaN # col) = Inl ValueError"
| "astype_int (Num v # col) =
     (case astype_int col of Inl e \<Rightarrow> Inl e | Inr ns \<Rightarrow> Inr (trunc v # ns))"

text \<open>
  \<^verbatim>\<open>scipy.stats.zscore\<close> with its defaults: mean and population standard deviation
  (divisor \<open>N\<close>).  On a float column it never raises: a missing entry makes every score
  \<open>NaN\<close>, and so does a column without spread, where the division is \<open>0/0\<close>.
\<close>

definition zscore :: "float64 list \<Rightarrow> error + float64 list" where
  "zscore a =
     Inr (if NaN \<in> set a then map (\<lambda>c. NaN) a
          else let xs = observed a;
                   n = real (length xs);
                   mn = sum_list xs / n;
                   sd = sqrt (sum_list (map (\<lambda>x. (x - mn) ^ 2) xs) / n)
               in map (\<lambda>x. if sd = 0 then NaN else Num ((x - mn) / sd)) xs)"

text \<open>\<^verbatim>\<open>df[col] = values\<close>, row by row.\<close>

definition assign :: "(row \<Rightarrow> 'a \<Rightarrow> row) \<Rightarrow> row list \<Rightarrow> 'a list \<Rightarrow> row list" where
  "assign upd df col = map (\<lambda>(r, v). upd r v) (zip df col)"

section \<open>Metric calculator\<close>

text \<open>
  The uploaded table.  The flags say whether it has a column \<open>ID\<close> and a column \<open>ADP\<close>,
  the two columns whose absence \<^verbatim>\<open>process_data\<close> treats differently from missing
  entries; any other numeric column that the upload lacks is a column of \<open>NaN\<close> (the default
  is assigned either way).  The three text columns are there.
\<close>

record frame =
  has_ID :: bool
  has_ADP :: bool
  table :: "row list"

text \<open>Lines 56-58: ids by position when the upload has none.\<close>

definition ensure_ID :: "frame \<Rightarrow> row list" where
  "ensure_ID f =
     (if \<not> has_ID f
      then assign (\<lambda>r v. r\<lparr>ID := v\<rparr>) (table f) (map int [0..<length (table f)])
      else table f)"

text \<open>Lines 60-65: missing ADP values.\<close>

definition fill_missing_ADP :: "bool \<Rightarrow> row list \<Rightarrow> row list" where
  "fill_missing_ADP adp_present df =
     (if adp_present
      then let max_adp = series_max (map ADP df);
               max_adp = (case max_adp of NaN \<Rightarrow> 999 | Num m \<Rightarrow> m)
           in map (\<lambda>r. r\<lparr>ADP := fillna (max_adp + 100) (ADP r)\<rparr>) df
      else df)"

text \<open>Lines 67-86: the required numeric columns and their defaults.\<close>

definition fill_required :: "bool \<Rightarrow> row list \<Rightarrow> row list" where
  "fill_required adp_present df =
     map (\<lambda>r. r\<lparr>ShutdownRisk := fillna_cell 0.5 (ShutdownRisk r),
               R2Mult := fillna_cell 1.0 (R2Mult r),
               R3Mult := fillna_cell 1.0 (R3Mult r),
               FinalsMult := fillna_cell 1.0 (FinalsMult r),
               TeamRank := fillna_cell 15 (TeamRank r),
               R2Games := fillna_cell 3 (R2Games r),
               R3Games := fillna_cell 3 (R3Games r),
               FinalsGames := fillna_cell 3 (FinalsGames r),
               FinalAdjGPP := fillna 0 (FinalAdjGPP r),
               ADP := (if adp_present then fillna 999 (ADP r) else Num 999)\<rparr>) df"

text \<open>Lines 88-93: rows without a critical entry go, then rows without a positive projection.\<close>

definition drop_invalid :: "row list \<Rightarrow> row list" where
  "drop_invalid df =
     filter (\<lambda>r. fgt (FinalAdjGPP r) 0)
       (filter (\<lambda>r. Name r \<noteq> None \<and> Position r \<noteq> None \<and> Team r \<noteq> None \<and> FinalAdjGPP r \<noteq> NaN) df)"

text \<open>Lines 95-98: the two rankings and their difference.\<close>

definition add_rankings :: "row list \<Rightarrow> error + row list" where
  "add_rankings df =
     (case astype_int (rank_min False (map FinalAdjGPP df)) of
        Inl e \<Rightarrow> Inl e
      | Inr final_ranks \<Rightarrow>
          (case astype_int (rank_min True (map ADP (assign (\<lambda>r v. r\<lparr>FinalAdjGPP_Rank := v\<rparr>) df final_ranks))) of
             Inl e \<Rightarrow> Inl e
           | Inr adp_ranks \<Rightarrow>
               Inr (map (\<lambda>r. r\<lparr>ValueScore := ADP_Rank r - FinalAdjGPP_Rank r\<rparr>)
                      (assign (\<lambda>r v. r\<lparr>ADP_Rank := v\<rparr>)
                         (assign (\<lambda>r v. r\<lparr>FinalAdjGPP_Rank := v\<rparr>) df final_ranks) adp_ranks))))"

text \<open>
  Lines 100-108: the z-scores inside \<^verbatim>\<open>try\<close>; the \<^verbatim>\<open>except\<close> branch, taken when a
  z-score computation raises, sets the three columns to 0.
\<close>

definition add_zscores :: "row list \<Rightarrow> row list" where
  "add_zscores df =
     (case (zscore (map FinalAdjGPP df), zscore (map (\<lambda>r. fneg (ADP r)) df)) of
        (Inr zf, Inr za) \<Rightarrow>
          map (\<lambda>r. r\<lparr>ValueZ := fsub (zFinal r) (zADP r)\<rparr>)
            (assign (\<lambda>r v. r\<lparr>zADP := v\<rparr>) (assign (\<lambda>r v. r\<lparr>zFinal := v\<rparr>) df zf) za)
      | _ \<Rightarrow> map (\<lambda>r. r\<lparr>zFinal := Num 0, zADP := Num 0, ValueZ := Num 0\<rparr>) df)"

text \<open>Lines 110-111.\<close>

definition add_value_alert :: "row list \<Rightarrow> row list" where
  "add_value_alert df = map (\<lambda>r. r\<lparr>ValueAlert := (ValueScore r \<ge> 12 \<or> fge (ValueZ r) 0.75)\<rparr>) df"

definition process_data :: "frame option \<Rightarrow> error + row list option" where
  "process_data df =
     (case df of
        None \<Rightarrow> Inr None
      | Some f \<Rightarrow>
          (case add_rankings (drop_invalid (fill_required (has_ADP f)
                  (fill_missing_ADP (has_ADP f) (ensure_ID f)))) of
             Inl e \<Rightarrow> Inl e
           | Inr ranked \<Rightarrow> Inr (Some (add_value_alert (add_zscores ranked)))))"

definition calculate_live_score :: "row list \<Rightarrow> real \<Rightarrow> row list" where
  "calculate_live_score df emphasis =
     map (\<lambda>r. r\<lparr>LiveScore := fmul (FinalAdjGPP r) (Num emphasis)\<rparr>) df"

section \<open>Stack score and equity\<close>

text \<open>\<^verbatim>\<open>float(x)\<close> and \<^verbatim>\<open>int(x)\<close> of a table entry.\<close>

fun py_float :: "cell \<Rightarrow> error + float64" where
  "py_float (Flt x) = Inr x"
| "py_float Obj = Inl ValueError"

fun py_int :: "cell \<Rightarrow> error + int" where
  "py_int (Flt (Num v)) = Inr (trunc v)"
| "py_int (Flt NaN) = Inl ValueError"
| "py_int Obj = Inl ValueError"

text \<open>
  \<^verbatim>\<open>my_roster_df['Team'] == player_team\<close>: a missing team equals nothing, not even
  another missing team.
\<close>

definition same_team :: "string option \<Rightarrow> string option \<Rightarrow> bool" where
  "same_team a b = (a \<noteq> None \<and> a = b)"

definition calculate_stack_score :: "row \<Rightarrow> row list \<Rightarrow> int" where
  "calculate_stack_score player_row my_roster_df =
     (if my_roster_df = [] then 0
      else
        let team_count = length (filter (\<lambda>r. same_team (Team r) (Team player_row)) my_roster_df);
            score = (if team_count = 1 then 6 else if team_count = 2 then 10 else 0);
            score = score + (case py_float (TeamRank player_row) of
                               Inr x \<Rightarrow> (if fle x 10 then 3 else 0) | Inl e \<Rightarrow> 0);
            score = score + (case py_int (FinalsGames player_row) of
                               Inr n \<Rightarrow> (if n = 4 then 4 else 0) | Inl e \<Rightarrow> 0);
            score = score + (case py_float (FinalsMult player_row) of
                               Inr x \<Rightarrow> (if fge x 1.04 then 2 else 0) | Inl e \<Rightarrow> 0)
        in score)"

text \<open>
  \<^verbatim>\<open>games * mult * weight\<close> on one row.  With an \<open>Obj\<close> operand the expression raises
  \<^verbatim>\<open>TypeError\<close>, at the first product or at the product with the float weight.
\<close>

fun weighted :: "cell \<Rightarrow> cell \<Rightarrow> real \<Rightarrow> error + float64" where
  "weighted (Flt g) (Flt m) w = Inr (fmul (fmul g m) (Num w))"
| "weighted _ _ w = Inl TypeError"

text \<open>An operation on a whole column raises as soon as one entry does.\<close>

fun collect :: "(error + 'a) list \<Rightarrow> error + 'a list" where
  "collect [] = Inr []"
| "collect (Inl e # xs) = Inl e"
| "collect (Inr v # xs) = (case collect xs of Inl e \<Rightarrow> Inl e | Inr vs \<Rightarrow> Inr (v # vs))"

text \<open>The decimal \<^verbatim>\<open>1.35\<close> is the double nearest to it; 1.0 and 1.75 are doubles.\<close>

definition advance_term :: "row \<Rightarrow> error + float64" where
  "advance_term r =
     (case (weighted (R2Games r) (R2Mult r) 1.0, weighted (R3Games r) (R3Mult r) (fl 1.35)) of
        (Inr a, Inr b) \<Rightarrow> Inr (fadd a b)
      | _ \<Rightarrow> Inl TypeError)"

definition win_term :: "row \<Rightarrow> error + float64" where
  "win_term r = weighted (FinalsGames r) (FinalsMult r) 1.75"

text \<open>\<^verbatim>\<open>calculate_equity\<close> of \<^verbatim>\<open>app_web.py\<close>: no guard, a fault leaves the function.\<close>

definition calculate_equity_app_web :: "row list \<Rightarrow> error + real \<times> real" where
  "calculate_equity_app_web roster_df =
     (if roster_df = [] then Inr (0, 0)
      else
        (case collect (map advance_term roster_df) of
           Inl e \<Rightarrow> Inl e
         | Inr adv \<Rightarrow>
             (case collect (map win_term roster_df) of
                Inl e \<Rightarrow> Inl e
              | Inr win \<Rightarrow> Inr (series_sum adv, series_sum win))))"

text \<open>
  \<^verbatim>\<open>calculate_equity\<close> of \<^verbatim>\<open>app_web_fixed.py\<close>: the same sums inside
  \<^verbatim>\<open>try\<close>, and \<open>(0, 0)\<close> from the \<^verbatim>\<open>except\<close> branch.
\<close>

definition calculate_equity :: "row list \<Rightarrow> real \<times> real" where
  "calculate_equity roster_df =
     (if roster_df = [] then (0, 0)
      else
        (case collect (map advance_term roster_df) of
           Inl e \<Rightarrow> (0, 0)
         | Inr adv \<Rightarrow>
             (case collect (map win_term roster_df) of
                Inl e \<Rightarrow> (0, 0)
              | Inr win \<Rightarrow> (series_sum adv, series_sum win))))"

section \<open>Draft state\<close>

text \<open>
  \<^verbatim>\<open>st.session_state.drafted_players\<close> is a Python set, \<^verbatim>\<open>my_roster\<close> a list.
\<close>

record draft_state =
  drafted_players :: "int set"
  my_roster :: "int list"

definition init_session_state :: draft_state where
  "init_session_state = \<lparr>drafted_players = {}, my_roster = []\<rparr>"

text \<open>What an f-string prints for a text cell; a missing one prints as \<^verbatim>\<open>nan\<close>.\<close>

definition fmt :: "string option \<Rightarrow> string" where
  "fmt c = (case c of None \<Rightarrow> ''nan'' | Some s \<Rightarrow> s)"

text \<open>The key \<^verbatim>\<open>f"{row['Name']} ({row['Position']}, {row['Team']})"\<close>.\<close>

definition option_label :: "row \<Rightarrow> string" where
  "option_label r = fmt (Name r) @ '' ('' @ fmt (Position r) @ '', '' @ fmt (Team r) @ '')''"

text \<open>
  \<^verbatim>\<open>available_players = display_df[~display_df['ID'].isin(drafted_players)]\<close> and the
  dict comprehension over its rows: a later row with the same key replaces the earlier one.
\<close>

definition available_players :: "row list \<Rightarrow> draft_state \<Rightarrow> row list" where
  "available_players display_df st = filter (\<lambda>r. ID r \<notin> drafted_players st) display_df"

definition player_options :: "row list \<Rightarrow> draft_state \<Rightarrow> (string \<rightharpoonup> int)" where
  "player_options display_df st =
     foldl (\<lambda>m r. m(option_label r \<mapsto> ID r)) Map.empty (available_players display_df st)"

text \<open>
  The two messages the draft handlers show (\<^verbatim>\<open>st.success\<close>, \<^verbatim>\<open>st.info\<close>); the
  leading emoji of the success text is left out.
\<close>

datatype notice = Success string | Info string

text \<open>
  The button "Draft to My Team", pressed while the select box shows \<open>selected_player\<close>.
  The select box is built from the keys of \<open>player_options\<close> and exists only when that
  dict is not empty, so a label that is not a key cannot be selected: then no handler runs,
  nothing is shown and the state stays as it is.
\<close>

definition draft_to_my_team :: "row list \<Rightarrow> string \<Rightarrow> draft_state \<Rightarrow> notice option \<times> draft_state" where
  "draft_to_my_team display_df selected_player st =
     (case player_options display_df st selected_player of
        None \<Rightarrow> (None, st)
      | Some player_id \<Rightarrow>
          (Some (Success (''Drafted '' @ selected_player)),
           st\<lparr>drafted_players := insert player_id (drafted_players st),
              my_roster := my_roster st @ [player_id]\<rparr>))"

text \<open>The button "Mark as Drafted".\<close>

definition mark_as_drafted :: "row list \<Rightarrow> string \<Rightarrow> draft_state \<Rightarrow> notice option \<times> draft_state" where
  "mark_as_drafted display_df selected_player st =
     (case player_options display_df st selected_player of
        None \<Rightarrow> (None, st)
      | Some player_id \<Rightarrow>
          (Some (Info (''Marked '' @ selected_player @ '' as drafted'')),
           st\<lparr>drafted_players := insert player_id (drafted_players st)\<rparr>))"

text \<open>
  The button "Undo Last Pick": \<^verbatim>\<open>pop()\<close> takes the last roster entry, \<^verbatim>\<open>discard\<close>
  removes it from the set.
\<close>

definition undo_last_pick :: "draft_state \<Rightarrow> draft_state" where
  "undo_last_pick st =
     (if my_roster st \<noteq> []
      then st\<lparr>my_roster := butlast (my_roster st),
              drafted_players := drafted_players st - {last (my_roster st)}\<rparr>
      else st)"

text \<open>The button "Reset Draft".\<close>

definition reset_draft :: "draft_state \<Rightarrow> draft_state" where
  "reset_draft st = st\<lparr>drafted_players := {}, my_roster := []\<rparr>"

text \<open>
  A user action: one of the four buttons, the two draft buttons with the label the select
  box shows.  Each action happens in front of the table displayed at that moment.
\<close>

datatype click = DraftToMyTeam string | MarkAsDrafted string | UndoLastPick | ResetDraft

fun handle :: "draft_state \<Rightarrow> row list \<times> click \<Rightarrow> draft_state" where
  "handle st (display_df, DraftToMyTeam sel) = snd (draft_to_my_team display_df sel st)"
| "handle st (display_df, MarkAsDrafted sel) = snd (mark_as_drafted display_df sel st)"
| "handle st (display_df, UndoLastPick) = undo_last_pick st"
| "handle st (display_df, ResetDraft) = reset_draft st"

definition session :: "(row list \<times> click) list \<Rightarrow> draft_state" where
  "session clicks = foldl handle init_session_state clicks"

section \<open>Notions used in the statements\<close>

text \<open>The invariant of the draft state: no id twice in the roster, every roster id drafted.\<close>

definition roster_ok :: "draft_state \<Rightarrow> bool" where
  "roster_ok st = (distinct (my_roster st) \<and> set (my_roster st) \<subseteq> drafted_players st)"

text \<open>The number of roster players on the candidate's team, as the stack score counts it.\<close>

definition team_count :: "row \<Rightarrow> row list \<Rightarrow> nat" where
  "team_count p roster = length (filter (\<lambda>r. same_team (Team r) (Team p)) roster)"

text \<open>The three team quality bonuses of the stack score.\<close>

definition quality_bonus :: "row \<Rightarrow> int" where
  "quality_bonus p =
     (case py_float (TeamRank p) of Inr x \<Rightarrow> (if fle x 10 then 3 else 0) | Inl e \<Rightarrow> 0) +
     (case py_int (FinalsGames p) of Inr n \<Rightarrow> (if n = 4 then 4 else 0) | Inl e \<Rightarrow> 0) +
     (case py_float (FinalsMult p) of Inr x \<Rightarrow> (if fge x 1.04 then 2 else 0) | Inl e \<Rightarrow> 0)"

text \<open>A float that is a double: rounding leaves it as it is.\<close>

fun is_double :: "float64 \<Rightarrow> bool" where
  "is_double (Num x) = (fl x = x)"
| "is_double NaN = True"

text \<open>An entry that is a number, and its value.\<close>

fun numeric :: "cell \<Rightarrow> bool" where
  "numeric (Flt (Num v)) = True"
| "numeric c = False"

fun val :: "cell \<Rightarrow> real" where
  "val (Flt (Num v)) = v"
| "val c = 0"

text \<open>A row whose six equity inputs are numbers; a row with a malformed one.\<close>

definition equity_numeric :: "row \<Rightarrow> bool" where
  "equity_numeric r = (numeric (R2Games r) \<and> numeric (R2Mult r) \<and> numeric (R3Games r) \<and>
     numeric (R3Mult r) \<and> numeric (FinalsGames r) \<and> numeric (FinalsMult r))"

definition equity_malformed :: "row \<Rightarrow> bool" where
  "equity_malformed r = (R2Games r = Obj \<or> R2Mult r = Obj \<or> R3Games r = Obj \<or>
     R3Mult r = Obj \<or> FinalsGames r = Obj \<or> FinalsMult r = Obj)"

text \<open>
  The specification's words for the equity inputs (section 4.3 with the defaults of
  section 3): a field that is not a number is replaced by the default of its column, 3 for
  the game counts and 1.0 for the multipliers.
\<close>

definition spec_default :: "real \<Rightarrow> cell \<Rightarrow> cell" where
  "spec_default d c = (if numeric c then c else Flt (Num d))"

definition spec_coerce :: "row \<Rightarrow> row" where
  "spec_coerce r = r\<lparr>R2Games := spec_default 3 (R2Games r), R3Games := spec_default 3 (R3Games r),
     FinalsGames := spec_default 3 (FinalsGames r), R2Mult := spec_default 1 (R2Mult r),
     R3Mult := spec_default 1 (R3Mult r), FinalsMult := spec_default 1 (FinalsMult r)\<rparr>"

text \<open>A row of the upload that survives the cleaning: the three text entries present and a
  positive projection (a missing projection is filled with 0 and then dropped).\<close>

definition admitted :: "row \<Rightarrow> bool" where
  "admitted r = (Name r \<noteq> None \<and> Position r \<noteq> None \<and> Team r \<noteq> None \<and> fgt (FinalAdjGPP r) 0)"

text \<open>The integer ranks of a column of numbers under the minimum method.\<close>

definition min_ranks :: "bool \<Rightarrow> real list \<Rightarrow> int list" where
  "min_ranks ascending vs =
     map (\<lambda>v. int (Suc (length (filter (\<lambda>w. if ascending then w < v else v < w) vs)))) vs"

text \<open>A column of the table that \<open>process_data\<close> returns.\<close>

definition column :: "(row \<Rightarrow> 'a) \<Rightarrow> error + row list option \<Rightarrow> error + 'a list option" where
  "column c res = map_sum id (map_option (map c)) res"

text \<open>The table as it is when the rankings are computed.\<close>

definition cleaned :: "frame \<Rightarrow> row list" where
  "cleaned f = drop_invalid (fill_required (has_ADP f) (fill_missing_ADP (has_ADP f) (ensure_ID f)))"

text \<open>The value that replaces a missing ADP entry when the upload has an ADP column.\<close>

definition adp_fill :: "frame \<Rightarrow> real" where
  "adp_fill f = (case series_max (map ADP (table f)) of NaN \<Rightarrow> 999 | Num m \<Rightarrow> m) + 100"

section \<open>Example data\<close>

text \<open>
  A well-formed row for the worked examples: id, name, team, projection and ADP as given,
  position \<^verbatim>\<open>G\<close>, every other input column at its default and the derived columns
  not yet computed.
\<close>

definition example_row :: "int \<Rightarrow> string \<Rightarrow> string \<Rightarrow> real \<Rightarrow> real \<Rightarrow> row" where
  "example_row i name team final adp =
     \<lparr>ID = i, Name = Some name, Position = Some ''G'', Team = Some team,
      ADP = Num adp, FinalAdjGPP = Num final, TeamRank = Flt (Num 15),
      R2Games = Flt (Num 3), R3Games = Flt (Num 3), FinalsGames = Flt (Num 3),
      R2Mult = Flt (Num 1), R3Mult = Flt (Num 1), FinalsMult = Flt (Num 1),
      ShutdownRisk = Flt (Num 0.5), FinalAdjGPP_Rank = 0, ADP_Rank = 0, ValueScore = 0,
      zFinal = NaN, zADP = NaN, ValueZ = NaN, ValueAlert = False, LiveScore = NaN\<rparr>"

section \<open>Properties of the rounding\<close>

lemma rne_of_int [simp]: "rne (of_int n) = n"
  by (simp add: rne_def)

lemma rne_close: "\<bar>of_int (rne y) - y\<bar> \<le> 1 / 2"
  unfolding rne_def Let_def by (auto simp: abs_if) linarith+

lemma fl_0 [simp]: "fl 0 = 0"
  by (simp add: fl_def)

lemma fl_eval:
  assumes "2 ^ k \<le> \<bar>x\<bar>" "\<bar>x\<bar> < 2 * 2 ^ k" "k \<le> 52"
  shows "fl x = of_int (rne (x * 2 ^ (52 - k))) / 2 ^ (52 - k)"
proof -
  have "(0::real) < 2 ^ k" by simp
  with assms(1) have pos: "0 < \<bar>x\<bar>" by linarith
  then have nz: "x \<noteq> 0" by auto
  have "(2::real) powr real k = 2 ^ k"
    by (rule powr_realpow) simp
  then have p1: "(2::real) powr real_of_int (int k) = 2 ^ k"
    by simp
  have s: "real_of_int (int k + 1) = real (Suc k)" by simp
  have "(2::real) powr real (Suc k) = 2 ^ Suc k"
    by (rule powr_realpow) simp
  then have p2: "(2::real) powr real_of_int (int k + 1) = 2 * 2 ^ k"
    by (simp only: s power_Suc)
  have "\<lfloor>log 2 \<bar>x\<bar>\<rfloor> = int k"
    using floor_log_eq_powr_iff [of "\<bar>x\<bar>" 2 "int k"] pos assms(1,2)
    by (simp only: p1 p2)
  then have e: "max \<lfloor>log 2 \<bar>x\<bar>\<rfloor> (- 1022) = int k" by simp
  have "real_of_int (int k) - 52 = - real (52 - k)"
    using assms(3) by simp
  then have "(2::real) powr (real_of_int (int k) - 52) = 2 powr (- real (52 - k))"
    by (simp only:)
  also have "\<dots> = 1 / 2 powr (real (52 - k))"
    by (simp only: powr_minus_divide)
  also have "\<dots> = 1 / 2 ^ (52 - k)"
    by (subst powr_realpow) simp_all
  finally have q: "(2::real) powr (real_of_int (int k) - 52) = 1 / 2 ^ (52 - k)" .
  have "fl x = of_int (rne (x / (1 / 2 ^ (52 - k)))) * (1 / 2 ^ (52 - k))"
    using nz by (simp only: fl_def Let_def e q if_False)
  then show ?thesis by simp
qed

text \<open>The doubles of the worked examples, as Python prints them: 1.1, 1.2, 1.35, 90.1,
  108.11999999999999, 2.2, 3.5500000000000003, 4.050000000000001, 7.050000000000001, 5.25 and
  10.600000000000001.\<close>

lemma fl_1_1: "fl 1.1 = 2476979795053773 / 2251799813685248"
  by (subst fl_eval [where k = 0]) (simp_all add: rne_def)

lemma fl_1_2: "fl 1.2 = 5404319552844595 / 4503599627370496"
  by (subst fl_eval [where k = 0]) (simp_all add: rne_def)

lemma fl_1_35: "fl 1.35 = 3039929748475085 / 2251799813685248"
  by (subst fl_eval [where k = 0]) (simp_all add: rne_def)

lemma fl_90_1: "fl 90.1 = 3170111925203763 / 35184372088832"
  by (subst fl_eval [where k = 6]) (simp_all add: rne_def)

lemma fl_108: "fl (3170111925203763 / 35184372088832 * (5404319552844595 / 4503599627370496)) =
    7608268620489031 / 70368744177664"
  by (subst fl_eval [where k = 6]) (simp_all add: rne_def)

lemma fl_2_2: "fl (2 * (2476979795053773 / 2251799813685248)) = 2476979795053773 / 1125899906842624"
  by (subst fl_eval [where k = 1]) (simp_all add: rne_def)

lemma fl_id_2_2: "fl (2476979795053773 / 1125899906842624 * 1) = 2476979795053773 / 1125899906842624"
  by (subst fl_eval [where k = 1]) (simp_all add: rne_def)

lemma fl_1: "fl 1 = 1"
  by (subst fl_eval [where k = 0]) (simp_all add: rne_def)

lemma fl_3: "fl 3 = 3"
  by (subst fl_eval [where k = 1]) (simp_all add: rne_def)

lemma fl_id_1_35: "fl (1 * (3039929748475085 / 2251799813685248)) = 3039929748475085 / 2251799813685248"
  by (subst fl_eval [where k = 0]) (simp_all add: rne_def)

lemma fl_3_55: "fl (2476979795053773 / 1125899906842624 + 3039929748475085 / 2251799813685248) =
    7993889338582631 / 2251799813685248"
  by (subst fl_eval [where k = 1]) (simp_all add: rne_def)

lemma fl_4_05: "fl (3 * (3039929748475085 / 2251799813685248)) = 1139973655678157 / 281474976710656"
  by (subst fl_eval [where k = 2]) (simp_all add: rne_def)

lemma fl_7_05: "fl (3 + 1139973655678157 / 281474976710656) = 1984398585810125 / 281474976710656"
  by (subst fl_eval [where k = 2]) (simp_all add: rne_def)

lemma fl_5_25: "fl (3 * 1.75) = 21 / 4"
  by (subst fl_eval [where k = 2]) (simp_all add: rne_def)

lemma fl_10_6: "fl (1984398585810125 / 281474976710656 + 7993889338582631 / 2251799813685248) =
    1491817376566477 / 140737488355328"
  by (subst fl_eval [where k = 3]) (simp_all add: rne_def)

lemma fl_rel_error:
  assumes "2 powr (- 1022) \<le> \<bar>x\<bar>"
  shows "\<bar>fl x - x\<bar> \<le> \<bar>x\<bar> / 2 ^ 53"
proof -
  have "(0::real) < 2 powr (- 1022)" by simp
  with assms have pos: "0 < \<bar>x\<bar>" by linarith
  then have nz: "x \<noteq> 0" by auto
  define e where "e = \<lfloor>log 2 \<bar>x\<bar>\<rfloor>"
  have le: "2 powr (of_int e) \<le> \<bar>x\<bar>"
    using floor_log_eq_powr_iff [of "\<bar>x\<bar>" 2 e] pos by (simp add: e_def)
  have "log 2 (2 powr (- 1022)) \<le> log 2 \<bar>x\<bar>"
    using assms pos by (simp del: log_powr_cancel)
  then have "- 1022 \<le> log 2 \<bar>x\<bar>" by simp
  then have "- 1022 \<le> e" unfolding e_def by linarith
  then have m: "max \<lfloor>log 2 \<bar>x\<bar>\<rfloor> (- 1022) = e" by (simp add: e_def)
  define q :: real where "q = 2 powr (of_int e - 52)"
  have qpos: "0 < q" by (simp add: q_def)
  have f: "fl x = of_int (rne (x / q)) * q"
    using nz by (simp add: fl_def m q_def Let_def)
  have "fl x - x = (of_int (rne (x / q)) - x / q) * q"
    unfolding f using qpos by (simp add: algebra_simps)
  then have "\<bar>fl x - x\<bar> = \<bar>of_int (rne (x / q)) - x / q\<bar> * q"
    using qpos by (simp add: abs_mult)
  also have "\<dots> \<le> (1 / 2) * q"
    using rne_close [of "x / q"] qpos by (simp add: mult_right_mono)
  also have "(1 / 2) * q = 2 powr (of_int e) / 2 ^ 53"
    by (simp add: q_def powr_diff)
  also have "\<dots> \<le> \<bar>x\<bar> / 2 ^ 53"
    using le by (simp add: divide_right_mono)
  finally show ?thesis .
qed

lemma fl_fl_90_1: "fl (3170111925203763 / 35184372088832) = 3170111925203763 / 35184372088832"
  by (subst fl_eval [where k = 6]) (simp_all add: rne_def)

lemma tiny_le_one: "2 powr (- 1022) \<le> (1::real)"
proof -
  have "(1::real) \<le> 2 powr 1022"
    by (rule ge_one_powr_ge_zero) simp_all
  then show ?thesis
    by (simp add: powr_minus_divide)
qed

section \<open>Properties of the draft state\<close>

lemma dict_build_SomeD:
  "foldl (\<lambda>m r. m(option_label r \<mapsto> ID r)) m0 rs k = Some v \<Longrightarrow>
     m0 k = Some v \<or> v \<in> ID ` set rs"
  by (induction rs arbitrary: m0) (fastforce split: if_splits)+

lemma player_options_available:
  "player_options display_df st sel = Some pid \<Longrightarrow>
     pid \<notin> drafted_players st \<and> pid \<in> ID ` set display_df"
  unfolding player_options_def available_players_def
  by (drule dict_build_SomeD) auto

lemma roster_ok_undo: "roster_ok st \<Longrightarrow> roster_ok (undo_last_pick st)"
proof (cases "my_roster st" rule: rev_cases)
  case Nil
  then show "roster_ok st \<Longrightarrow> roster_ok (undo_last_pick st)"
    by (simp add: undo_last_pick_def)
next
  case (snoc ys y)
  then show "roster_ok st \<Longrightarrow> roster_ok (undo_last_pick st)"
    by (auto simp: undo_last_pick_def roster_ok_def)
qed

lemma roster_ok_handle: "roster_ok st \<Longrightarrow> roster_ok (handle st ev)"
proof (cases ev)
  case (Pair display_df c)
  assume ok: "roster_ok st"
  show "roster_ok (handle st ev)"
  proof (cases c)
    case (DraftToMyTeam sel)
    with Pair ok show ?thesis
      by (auto simp: draft_to_my_team_def roster_ok_def split: option.splits
               dest: player_options_available)
  next
    case (MarkAsDrafted sel)
    with Pair ok show ?thesis
      by (auto simp: mark_as_drafted_def roster_ok_def split: option.splits)
  next
    case UndoLastPick
    with Pair ok show ?thesis by (simp add: roster_ok_undo)
  next
    case ResetDraft
    with Pair ok show ?thesis by (simp add: reset_draft_def roster_ok_def)
  qed
qed

lemma roster_ok_foldl: "roster_ok st \<Longrightarrow> roster_ok (foldl handle st clicks)"
  by (induction clicks arbitrary: st) (simp_all add: roster_ok_handle)

text \<open>A session that drafts a player, marks another and undoes the draft.\<close>

lemma session_example:
  "session [([example_row 0 ''A'' ''BOS'' 100 5], DraftToMyTeam ''A (G, BOS)''),
            ([example_row 1 ''B'' ''LAL'' 90 1], MarkAsDrafted ''B (G, LAL)'')] =
     \<lparr>drafted_players = {1, 0}, my_roster = [0]\<rparr> \<and>
   session [([example_row 0 ''A'' ''BOS'' 100 5], DraftToMyTeam ''A (G, BOS)''),
            ([example_row 1 ''B'' ''LAL'' 90 1], MarkAsDrafted ''B (G, LAL)''),
            ([], UndoLastPick)] =
     \<lparr>drafted_players = {1}, my_roster = []\<rparr>"
  by (simp add: session_def init_session_state_def draft_to_my_team_def mark_as_drafted_def
      undo_last_pick_def player_options_def available_players_def option_label_def fmt_def
      example_row_def) auto

text \<open>
  C2.  After every finite sequence of draft, mark-drafted, undo and reset actions from the
  empty session state, every id of the roster list is in the drafted set.
\<close>

theorem roster_subset_drafted:
  "set (my_roster (session clicks)) \<subseteq> drafted_players (session clicks)"
proof -
  have "roster_ok init_session_state"
    by (simp add: roster_ok_def init_session_state_def)
  then have "roster_ok (session clicks)"
    unfolding session_def by (rule roster_ok_foldl)
  then show ?thesis by (simp add: roster_ok_def)
qed

lemma player_options_single:
  "ID r \<notin> drafted_players st \<Longrightarrow> player_options [r] st (option_label r) = Some (ID r)"
  by (simp add: player_options_def available_players_def)

lemma undo_after_append:
  "x \<notin> drafted_players st \<Longrightarrow>
     undo_last_pick (st\<lparr>drafted_players := insert x (drafted_players st),
                         my_roster := my_roster st @ [x]\<rparr>) = st"
  by (simp add: undo_last_pick_def)

text \<open>
  C3.  Undo on an empty roster changes nothing.  A player that is available can be drafted
  (shown alone, its own label selects it); and whenever the draft button drafts \<open>x\<close>, it
  adds \<open>x\<close> to the set and to the end of the roster, and undo applied to the result gives
  back exactly the state before the draft.
\<close>

theorem undo_inverts_draft:
  "(my_roster st = [] \<longrightarrow> undo_last_pick st = st) \<and>
   (ID r \<notin> drafted_players st \<longrightarrow> player_options [r] st (option_label r) = Some (ID r)) \<and>
   (player_options display_df st sel = Some x \<longrightarrow>
      snd (draft_to_my_team display_df sel st) =
        st\<lparr>drafted_players := insert x (drafted_players st), my_roster := my_roster st @ [x]\<rparr> \<and>
      undo_last_pick (snd (draft_to_my_team display_df sel st)) = st)"
proof (intro conjI impI)
  assume "my_roster st = []"
  then show "undo_last_pick st = st" by (simp add: undo_last_pick_def)
next
  assume "ID r \<notin> drafted_players st"
  then show "player_options [r] st (option_label r) = Some (ID r)"
    by (rule player_options_single)
next
  assume sel: "player_options display_df st sel = Some x"
  then show d: "snd (draft_to_my_team display_df sel st) =
        st\<lparr>drafted_players := insert x (drafted_players st), my_roster := my_roster st @ [x]\<rparr>"
    by (simp add: draft_to_my_team_def)
  from sel have "x \<notin> drafted_players st"
    by (simp add: player_options_available)
  then show "undo_last_pick (snd (draft_to_my_team display_df sel st)) = st"
    unfolding d by (rule undo_after_append)
qed

theorem undo_inverts_draft_witness:
  "my_roster \<lparr>drafted_players = {7}, my_roster = []\<rparr> = [] \<and>
   undo_last_pick \<lparr>drafted_players = {7}, my_roster = []\<rparr> = \<lparr>drafted_players = {7}, my_roster = []\<rparr> \<and>
   ID (example_row 0 ''A'' ''BOS'' 100 5) \<notin> drafted_players \<lparr>drafted_players = {7}, my_roster = []\<rparr> \<and>
   player_options [example_row 0 ''A'' ''BOS'' 100 5] \<lparr>drafted_players = {7}, my_roster = []\<rparr>
     (option_label (example_row 0 ''A'' ''BOS'' 100 5)) = Some 0 \<and>
   snd (draft_to_my_team [example_row 0 ''A'' ''BOS'' 100 5]
          (option_label (example_row 0 ''A'' ''BOS'' 100 5)) \<lparr>drafted_players = {7}, my_roster = []\<rparr>) =
     \<lparr>drafted_players = {0, 7}, my_roster = [0]\<rparr> \<and>
   undo_last_pick (snd (draft_to_my_team [example_row 0 ''A'' ''BOS'' 100 5]
          (option_label (example_row 0 ''A'' ''BOS'' 100 5)) \<lparr>drafted_players = {7}, my_roster = []\<rparr>)) =
     \<lparr>drafted_players = {7}, my_roster = []\<rparr>"
proof -
  have a: "ID (example_row 0 ''A'' ''BOS'' 100 5) \<notin> drafted_players \<lparr>drafted_players = {7}, my_roster = []\<rparr>"
    by (simp add: example_row_def)
  have b: "player_options [example_row 0 ''A'' ''BOS'' 100 5] \<lparr>drafted_players = {7}, my_roster = []\<rparr>
     (option_label (example_row 0 ''A'' ''BOS'' 100 5)) = Some 0"
    using player_options_single [OF a] by (simp add: example_row_def)
  note c = undo_inverts_draft [of "\<lparr>drafted_players = {7}, my_roster = []\<rparr>"
        "example_row 0 ''A'' ''BOS'' 100 5" "[example_row 0 ''A'' ''BOS'' 100 5]"
        "option_label (example_row 0 ''A'' ''BOS'' 100 5)" 0]
  from c have c1: "undo_last_pick \<lparr>drafted_players = {7}, my_roster = []\<rparr> =
      \<lparr>drafted_players = {7}, my_roster = []\<rparr>"
    by simp
  from c b have c3: "snd (draft_to_my_team [example_row 0 ''A'' ''BOS'' 100 5]
          (option_label (example_row 0 ''A'' ''BOS'' 100 5)) \<lparr>drafted_players = {7}, my_roster = []\<rparr>) =
        \<lparr>drafted_players = {7}, my_roster = []\<rparr>\<lparr>drafted_players :=
           insert 0 (drafted_players \<lparr>drafted_players = {7}, my_roster = []\<rparr>),
           my_roster := my_roster \<lparr>drafted_players = {7}, my_roster = []\<rparr> @ [0]\<rparr> \<and>
      undo_last_pick (snd (draft_to_my_team [example_row 0 ''A'' ''BOS'' 100 5]
          (option_label (example_row 0 ''A'' ''BOS'' 100 5)) \<lparr>drafted_players = {7}, my_roster = []\<rparr>)) =
        \<lparr>drafted_players = {7}, my_roster = []\<rparr>"
    by blast
  from a b c1 c3 show ?thesis by (simp add: undo_last_pick_def)
qed

lemma draft_roster_count:
  "pid \<in> drafted_players st \<Longrightarrow>
     count_list (my_roster (snd (draft_to_my_team display_df sel st))) pid = count_list (my_roster st) pid"
  by (auto simp: draft_to_my_team_def split: option.splits dest: player_options_available)

lemma all_drafted_no_option:
  "ID ` set display_df \<subseteq> drafted_players st \<Longrightarrow> player_options display_df st sel = None"
proof (cases "player_options display_df st sel")
  case None
  then show "player_options display_df st sel = None" .
next
  case (Some pid)
  assume "ID ` set display_df \<subseteq> drafted_players st"
  with player_options_available [OF Some] show "player_options display_df st sel = None"
    by auto
qed

text \<open>
  C4, as the code has it.  An id that is already in the drafted set is never offered by the
  select box, under no label; a click on either draft button leaves it in the set and does
  not change how often it occurs in the roster; and when every displayed id is already
  drafted both buttons do nothing: the state is unchanged and no message of any kind is
  shown.
\<close>

theorem unavailable_never_offered:
  "(pid \<in> drafted_players st \<longrightarrow>
      player_options display_df st sel \<noteq> Some pid \<and>
      pid \<in> drafted_players (snd (draft_to_my_team display_df sel st)) \<and>
      pid \<in> drafted_players (snd (mark_as_drafted display_df sel st)) \<and>
      count_list (my_roster (snd (draft_to_my_team display_df sel st))) pid = count_list (my_roster st) pid \<and>
      my_roster (snd (mark_as_drafted display_df sel st)) = my_roster st) \<and>
   (ID ` set display_df \<subseteq> drafted_players st \<longrightarrow>
      draft_to_my_team display_df sel st = (None, st) \<and>
      mark_as_drafted display_df sel st = (None, st))"
proof (intro conjI impI)
  assume d: "pid \<in> drafted_players st"
  show "player_options display_df st sel \<noteq> Some pid"
    using d player_options_available by blast
  show "pid \<in> drafted_players (snd (draft_to_my_team display_df sel st))"
    using d by (simp add: draft_to_my_team_def split: option.splits)
  show "pid \<in> drafted_players (snd (mark_as_drafted display_df sel st))"
    using d by (simp add: mark_as_drafted_def split: option.splits)
  show "count_list (my_roster (snd (draft_to_my_team display_df sel st))) pid = count_list (my_roster st) pid"
    using d by (rule draft_roster_count)
  show "my_roster (snd (mark_as_drafted display_df sel st)) = my_roster st"
    by (simp add: mark_as_drafted_def split: option.splits)
next
  assume "ID ` set display_df \<subseteq> drafted_players st"
  then have n: "player_options display_df st sel = None"
    by (rule all_drafted_no_option)
  show "draft_to_my_team display_df sel st = (None, st)"
    by (simp add: draft_to_my_team_def n)
  show "mark_as_drafted display_df sel st = (None, st)"
    by (simp add: mark_as_drafted_def n)
qed

theorem unavailable_never_offered_witness:
  "0 \<in> drafted_players \<lparr>drafted_players = {0}, my_roster = [0]\<rparr> \<and>
   ID ` set [example_row 0 ''A'' ''BOS'' 100 5] \<subseteq> drafted_players \<lparr>drafted_players = {0}, my_roster = [0]\<rparr> \<and>
   player_options [example_row 0 ''A'' ''BOS'' 100 5] \<lparr>drafted_players = {0}, my_roster = [0]\<rparr>
     (option_label (example_row 0 ''A'' ''BOS'' 100 5)) \<noteq> Some 0 \<and>
   count_list (my_roster (snd (draft_to_my_team [example_row 0 ''A'' ''BOS'' 100 5]
     (option_label (example_row 0 ''A'' ''BOS'' 100 5)) \<lparr>drafted_players = {0}, my_roster = [0]\<rparr>))) 0 = 1 \<and>
   draft_to_my_team [example_row 0 ''A'' ''BOS'' 100 5]
     (option_label (example_row 0 ''A'' ''BOS'' 100 5)) \<lparr>drafted_players = {0}, my_roster = [0]\<rparr> =
     (None, \<lparr>drafted_players = {0}, my_roster = [0]\<rparr>) \<and>
   mark_as_drafted [example_row 0 ''A'' ''BOS'' 100 5]
     (option_label (example_row 0 ''A'' ''BOS'' 100 5)) \<lparr>drafted_players = {0}, my_roster = [0]\<rparr> =
     (None, \<lparr>drafted_players = {0}, my_roster = [0]\<rparr>)"
proof -
  have a: "ID ` set [example_row 0 ''A'' ''BOS'' 100 5] \<subseteq> drafted_players \<lparr>drafted_players = {0}, my_roster = [0]\<rparr>"
    by (simp add: example_row_def)
  show ?thesis
    using a unavailable_never_offered [of 0 "\<lparr>drafted_players = {0}, my_roster = [0]\<rparr>"
        "[example_row 0 ''A'' ''BOS'' 100 5]" "option_label (example_row 0 ''A'' ''BOS'' 100 5)"]
    by simp
qed

text \<open>
  C4 as written fails: with player 0 already drafted and shown (view "All Players"), an
  attempt to draft or mark it reports nothing at all, where the claim wants a rejection
  signal.
\<close>

theorem no_invalid_transition_signal:
  "fst (draft_to_my_team [example_row 0 ''A'' ''BOS'' 100 5] ''A (G, BOS)''
          \<lparr>drafted_players = {0}, my_roster = [0]\<rparr>) = None \<and>
   fst (mark_as_drafted [example_row 0 ''A'' ''BOS'' 100 5] ''A (G, BOS)''
          \<lparr>drafted_players = {0}, my_roster = [0]\<rparr>) = None"
  by (simp add: draft_to_my_team_def mark_as_drafted_def player_options_def
      available_players_def example_row_def)

section \<open>Properties of the live score\<close>

lemma fmul_Num: "fmul c (Num k) = (case c of Num a \<Rightarrow> Num (fl (a * k)) | NaN \<Rightarrow> NaN)"
  by (cases c) simp_all

lemma fmul_one_double: "is_double c \<Longrightarrow> fmul c (Num 1) = c"
  by (cases c) simp_all

lemma live_rows:
  "r \<in> set (calculate_live_score df emphasis) \<Longrightarrow> LiveScore r = fmul (FinalAdjGPP r) (Num emphasis)"
  by (auto simp: calculate_live_score_def)

text \<open>
  C5.  The live score of a row is the double product of its projection and the emphasis:
  the real product rounded once, within a relative error of \<open>2^-53\<close> of it, and a missing
  projection gives a missing score.  The live score at emphasis 1.0 is the projection
  itself, and the live score at any other emphasis \<open>k\<close> (1.2 in the claim) is the double
  product of that live score and \<open>k\<close>.  The recomputation changes no other column: the rows
  are the same up to \<open>LiveScore\<close>, in particular the two ranks, the value score, the
  z-scores, \<open>ValueZ\<close> and the value alert.
\<close>

theorem live_score_only:
  "map LiveScore (calculate_live_score df emphasis) =
     map (\<lambda>r. case FinalAdjGPP r of Num x \<Rightarrow> Num (fl (x * emphasis)) | NaN \<Rightarrow> NaN) df \<and>
   (r \<in> set (calculate_live_score df emphasis) \<and> FinalAdjGPP r = Num x \<and>
      2 powr (- 1022) \<le> \<bar>x * emphasis\<bar> \<longrightarrow>
      (\<exists>y. LiveScore r = Num y \<and> \<bar>y - x * emphasis\<bar> \<le> \<bar>x * emphasis\<bar> / 2 ^ 53)) \<and>
   (list_all (\<lambda>r. is_double (FinalAdjGPP r)) df \<longrightarrow>
      map LiveScore (calculate_live_score df 1.0) = map FinalAdjGPP df \<and>
      map LiveScore (calculate_live_score df k) =
        map (\<lambda>r. case LiveScore r of Num y \<Rightarrow> Num (fl (y * k)) | NaN \<Rightarrow> NaN)
          (calculate_live_score df 1.0)) \<and>
   map (\<lambda>r. r\<lparr>LiveScore := NaN\<rparr>) (calculate_live_score df emphasis) =
     map (\<lambda>r. r\<lparr>LiveScore := NaN\<rparr>) df \<and>
   map FinalAdjGPP_Rank (calculate_live_score df emphasis) = map FinalAdjGPP_Rank df \<and>
   map ADP_Rank (calculate_live_score df emphasis) = map ADP_Rank df \<and>
   map ValueScore (calculate_live_score df emphasis) = map ValueScore df \<and>
   map zFinal (calculate_live_score df emphasis) = map zFinal df \<and>
   map zADP (calculate_live_score df emphasis) = map zADP df \<and>
   map ValueZ (calculate_live_score df emphasis) = map ValueZ df \<and>
   map ValueAlert (calculate_live_score df emphasis) = map ValueAlert df"
proof (intro conjI impI)
  show "map LiveScore (calculate_live_score df emphasis) =
     map (\<lambda>r. case FinalAdjGPP r of Num x \<Rightarrow> Num (fl (x * emphasis)) | NaN \<Rightarrow> NaN) df"
    by (simp add: calculate_live_score_def fmul_Num o_def)
next
  assume a: "r \<in> set (calculate_live_score df emphasis) \<and> FinalAdjGPP r = Num x \<and>
      2 powr (- 1022) \<le> \<bar>x * emphasis\<bar>"
  then have "LiveScore r = Num (fl (x * emphasis))"
    using live_rows [of r df emphasis] by simp
  moreover from a have "\<bar>fl (x * emphasis) - x * emphasis\<bar> \<le> \<bar>x * emphasis\<bar> / 2 ^ 53"
    using fl_rel_error by blast
  ultimately show "\<exists>y. LiveScore r = Num y \<and> \<bar>y - x * emphasis\<bar> \<le> \<bar>x * emphasis\<bar> / 2 ^ 53"
    by blast
next
  assume d: "list_all (\<lambda>r. is_double (FinalAdjGPP r)) df"
  then have one: "\<And>r. r \<in> set df \<Longrightarrow> fmul (FinalAdjGPP r) (Num 1) = FinalAdjGPP r"
    by (simp add: list_all_iff fmul_one_double)
  then show "map LiveScore (calculate_live_score df 1.0) = map FinalAdjGPP df"
    by (simp add: calculate_live_score_def o_def)
  from one show "map LiveScore (calculate_live_score df k) =
        map (\<lambda>r. case LiveScore r of Num y \<Rightarrow> Num (fl (y * k)) | NaN \<Rightarrow> NaN)
          (calculate_live_score df 1.0)"
    by (simp add: calculate_live_score_def o_def fmul_Num)
qed (simp_all add: calculate_live_score_def o_def)

theorem live_score_only_witness:
  "list_all (\<lambda>r. is_double (FinalAdjGPP r))
     [(example_row 0 ''A'' ''BOS'' 1 5)\<lparr>FinalAdjGPP := Num (fl 90.1)\<rparr>] \<and>
   map LiveScore (calculate_live_score
     [(example_row 0 ''A'' ''BOS'' 1 5)\<lparr>FinalAdjGPP := Num (fl 90.1)\<rparr>] 1.0) = [Num (fl 90.1)] \<and>
   map LiveScore (calculate_live_score
     [(example_row 0 ''A'' ''BOS'' 1 5)\<lparr>FinalAdjGPP := Num (fl 90.1)\<rparr>] (fl 1.2)) =
     [Num (7608268620489031 / 70368744177664)] \<and>
   (example_row 0 ''A'' ''BOS'' 1 5)\<lparr>FinalAdjGPP := Num (fl 90.1),
       LiveScore := Num (7608268620489031 / 70368744177664)\<rparr> \<in>
     set (calculate_live_score
       [(example_row 0 ''A'' ''BOS'' 1 5)\<lparr>FinalAdjGPP := Num (fl 90.1)\<rparr>] (fl 1.2)) \<and>
   2 powr (- 1022) \<le> \<bar>fl 90.1 * fl 1.2\<bar> \<and>
   \<bar>7608268620489031 / 70368744177664 - fl 90.1 * fl 1.2\<bar> \<le> \<bar>fl 90.1 * fl 1.2\<bar> / 2 ^ 53"
proof -
  let ?a = "(example_row 0 ''A'' ''BOS'' 1 5)\<lparr>FinalAdjGPP := Num (fl 90.1)\<rparr>"
  let ?r = "(example_row 0 ''A'' ''BOS'' 1 5)\<lparr>FinalAdjGPP := Num (fl 90.1),
       LiveScore := Num (7608268620489031 / 70368744177664)\<rparr>"
  note w = live_score_only [of "[?a]" "fl 1.2" ?r "fl 90.1" "fl 1.2"]
  have d: "list_all (\<lambda>r. is_double (FinalAdjGPP r)) [?a]"
    using fl_fl_90_1 unfolding fl_90_1 by simp
  have p: "fl (fl 90.1 * fl 1.2) = 7608268620489031 / 70368744177664"
    unfolding fl_90_1 fl_1_2 by (rule fl_108)
  have m: "?r \<in> set (calculate_live_score [?a] (fl 1.2))"
    using p by (simp add: calculate_live_score_def)
  have "(1::real) \<le> \<bar>fl 90.1 * fl 1.2\<bar>"
    unfolding fl_90_1 fl_1_2 by simp
  with tiny_le_one have g: "2 powr (- 1022) \<le> \<bar>fl 90.1 * fl 1.2\<bar>"
    by linarith
  from w have 1: "map LiveScore (calculate_live_score [?a] (fl 1.2)) =
      [Num (7608268620489031 / 70368744177664)]"
    using p by simp
  from w d have 2: "map LiveScore (calculate_live_score [?a] 1.0) = [Num (fl 90.1)]"
    by simp
  have fa: "FinalAdjGPP ?r = Num (fl 90.1)" by simp
  from w [THEN conjunct2, THEN conjunct1] m fa g
  have "\<exists>y. LiveScore ?r = Num y \<and> \<bar>y - fl 90.1 * fl 1.2\<bar> \<le> \<bar>fl 90.1 * fl 1.2\<bar> / 2 ^ 53"
    by blast
  then obtain y where y: "LiveScore ?r = Num y"
    and b: "\<bar>y - fl 90.1 * fl 1.2\<bar> \<le> \<bar>fl 90.1 * fl 1.2\<bar> / 2 ^ 53"
    by blast
  from y have "y = 7608268620489031 / 70368744177664" by simp
  with b have 3: "\<bar>7608268620489031 / 70368744177664 - fl 90.1 * fl 1.2\<bar> \<le> \<bar>fl 90.1 * fl 1.2\<bar> / 2 ^ 53"
    by (simp only:)
  from d 1 2 m g 3 show ?thesis by blast
qed

section \<open>Properties of the stack score\<close>

lemma quality_bonus_nonneg: "0 \<le> quality_bonus p"
  by (simp add: quality_bonus_def split: sum.splits)

lemma stack_score_eq:
  "roster \<noteq> [] \<Longrightarrow> calculate_stack_score p roster =
     (if team_count p roster = 1 then 6 else if team_count p roster = 2 then 10 else 0) + quality_bonus p"
  by (simp add: calculate_stack_score_def Let_def team_count_def quality_bonus_def)

lemma team_count_pos: "0 < team_count p roster \<Longrightarrow> roster \<noteq> []"
  by (auto simp: team_count_def)

lemma stack_score_le_cap: "calculate_stack_score p roster \<le> 10 + quality_bonus p"
proof (cases "roster = []")
  case True
  then show ?thesis
    using quality_bonus_nonneg [of p] by (simp add: calculate_stack_score_def)
next
  case False
  then show ?thesis by (simp add: stack_score_eq)
qed

text \<open>
  C6.  The stack score is 0 against an empty roster.  It is the quality bonus plus 6 when
  exactly one roster player is on the candidate's team, plus 10 when exactly two are, and
  the quality bonus alone with three or more (no stack bonus beyond the second teammate).
  The quality bonus is 3 for a team rank of at most 10, plus 4 for four finals games (what
  \<^verbatim>\<open>int()\<close> makes of the entry, so a value from 4 up to 5), plus 2 for a finals
  multiplier of at least 1.04.  So the score does not fall from no roster or no teammate to
  one teammate and on to two, it does not rise again with three or more, and no roster gives
  more than the two-teammate score.
\<close>

theorem stack_score_shape:
  "calculate_stack_score p [] = 0 \<and>
   (team_count p ra = 1 \<longrightarrow> calculate_stack_score p ra = 6 + quality_bonus p) \<and>
   (team_count p rb = 2 \<longrightarrow> calculate_stack_score p rb = 10 + quality_bonus p) \<and>
   (3 \<le> team_count p rc \<longrightarrow> calculate_stack_score p rc = quality_bonus p) \<and>
   (TeamRank p = Flt (Num tr) \<and> FinalsGames p = Flt (Num fg) \<and> FinalsMult p = Flt (Num fm) \<longrightarrow>
      quality_bonus p =
        (if tr \<le> 10 then 3 else 0) + (if 4 \<le> fg \<and> fg < 5 then 4 else 0) +
        (if 1.04 \<le> fm then 2 else 0)) \<and>
   (FinalsGames p = Flt (Num 4) \<longrightarrow> 4 \<le> quality_bonus p) \<and>
   (team_count p r0 = 0 \<and> team_count p ra = 1 \<and> team_count p rb = 2 \<and> 3 \<le> team_count p rc \<longrightarrow>
      calculate_stack_score p [] \<le> calculate_stack_score p ra \<and>
      calculate_stack_score p r0 \<le> calculate_stack_score p ra \<and>
      calculate_stack_score p ra \<le> calculate_stack_score p rb \<and>
      calculate_stack_score p rc \<le> calculate_stack_score p rb) \<and>
   calculate_stack_score p roster \<le> 10 + quality_bonus p"
proof (intro conjI impI)
  show e: "calculate_stack_score p [] = 0"
    by (simp add: calculate_stack_score_def)
  show a: "calculate_stack_score p ra = 6 + quality_bonus p" if "team_count p ra = 1" for ra
    using that team_count_pos [of p ra] by (simp add: stack_score_eq)
  show b: "calculate_stack_score p rb = 10 + quality_bonus p" if "team_count p rb = 2" for rb
    using that team_count_pos [of p rb] by (simp add: stack_score_eq)
  show c: "calculate_stack_score p rc = quality_bonus p" if "3 \<le> team_count p rc" for rc
    using that team_count_pos [of p rc] by (simp add: stack_score_eq)
  show "quality_bonus p =
        (if tr \<le> 10 then 3 else 0) + (if 4 \<le> fg \<and> fg < 5 then 4 else 0) +
        (if 1.04 \<le> fm then 2 else 0)"
    if "TeamRank p = Flt (Num tr) \<and> FinalsGames p = Flt (Num fg) \<and> FinalsMult p = Flt (Num fm)"
  proof -
    have "(trunc fg = 4) = (4 \<le> fg \<and> fg < 5)"
      unfolding trunc_def by (auto simp: floor_eq_iff ceiling_eq_iff)
    with that show ?thesis
      by (simp add: quality_bonus_def)
  qed
  show "4 \<le> quality_bonus p" if "FinalsGames p = Flt (Num 4)"
    using that by (simp add: quality_bonus_def trunc_def split: sum.splits)
  show "calculate_stack_score p [] \<le> calculate_stack_score p ra"
    if "team_count p r0 = 0 \<and> team_count p ra = 1 \<and> team_count p rb = 2 \<and> 3 \<le> team_count p rc" for r0 ra rb rc
    using that a [of ra] e quality_bonus_nonneg [of p] by simp
  show "calculate_stack_score p r0 \<le> calculate_stack_score p ra"
    if "team_count p r0 = 0 \<and> team_count p ra = 1 \<and> team_count p rb = 2 \<and> 3 \<le> team_count p rc" for r0 ra rb rc
  proof (cases "r0 = []")
    case True
    with that a [of ra] e quality_bonus_nonneg [of p] show ?thesis by simp
  next
    case False
    with that a [of ra] show ?thesis by (simp add: stack_score_eq)
  qed
  show "calculate_stack_score p ra \<le> calculate_stack_score p rb"
    if "team_count p r0 = 0 \<and> team_count p ra = 1 \<and> team_count p rb = 2 \<and> 3 \<le> team_count p rc" for r0 ra rb rc
    using that a [of ra] b [of rb] by simp
  show "calculate_stack_score p rc \<le> calculate_stack_score p rb"
    if "team_count p r0 = 0 \<and> team_count p ra = 1 \<and> team_count p rb = 2 \<and> 3 \<le> team_count p rc" for r0 ra rb rc
    using that b [of rb] c [of rc] by simp
  show "calculate_stack_score p roster \<le> 10 + quality_bonus p"
    by (rule stack_score_le_cap)
qed

theorem stack_score_shape_witness:
  "team_count ((example_row 9 ''P'' ''BOS'' 100 5)\<lparr>TeamRank := Flt (Num 4), FinalsGames := Flt (Num 4),
        FinalsMult := Flt (Num 1.05)\<rparr>) [example_row 5 ''Z'' ''LAL'' 85 8] = 0 \<and>
   team_count ((example_row 9 ''P'' ''BOS'' 100 5)\<lparr>TeamRank := Flt (Num 4), FinalsGames := Flt (Num 4),
        FinalsMult := Flt (Num 1.05)\<rparr>) [example_row 1 ''Q'' ''BOS'' 80 9] = 1 \<and>
   team_count ((example_row 9 ''P'' ''BOS'' 100 5)\<lparr>TeamRank := Flt (Num 4), FinalsGames := Flt (Num 4),
        FinalsMult := Flt (Num 1.05)\<rparr>)
     [example_row 2 ''R'' ''BOS'' 70 12, example_row 1 ''Q'' ''BOS'' 80 9] = 2 \<and>
   3 \<le> team_count ((example_row 9 ''P'' ''BOS'' 100 5)\<lparr>TeamRank := Flt (Num 4), FinalsGames := Flt (Num 4),
        FinalsMult := Flt (Num 1.05)\<rparr>)
     [example_row 3 ''S'' ''BOS'' 60 20, example_row 2 ''R'' ''BOS'' 70 12, example_row 1 ''Q'' ''BOS'' 80 9] \<and>
   quality_bonus ((example_row 9 ''P'' ''BOS'' 100 5)\<lparr>TeamRank := Flt (Num 4), FinalsGames := Flt (Num 4),
        FinalsMult := Flt (Num 1.05)\<rparr>) = 9 \<and>
   calculate_stack_score ((example_row 9 ''P'' ''BOS'' 100 5)\<lparr>TeamRank := Flt (Num 4),
        FinalsGames := Flt (Num 4), FinalsMult := Flt (Num 1.05)\<rparr>) [] = 0 \<and>
   calculate_stack_score ((example_row 9 ''P'' ''BOS'' 100 5)\<lparr>TeamRank := Flt (Num 4),
        FinalsGames := Flt (Num 4), FinalsMult := Flt (Num 1.05)\<rparr>) [example_row 5 ''Z'' ''LAL'' 85 8] \<le> 15 \<and>
   calculate_stack_score ((example_row 9 ''P'' ''BOS'' 100 5)\<lparr>TeamRank := Flt (Num 4),
        FinalsGames := Flt (Num 4), FinalsMult := Flt (Num 1.05)\<rparr>) [example_row 1 ''Q'' ''BOS'' 80 9] = 15 \<and>
   calculate_stack_score ((example_row 9 ''P'' ''BOS'' 100 5)\<lparr>TeamRank := Flt (Num 4),
        FinalsGames := Flt (Num 4), FinalsMult := Flt (Num 1.05)\<rparr>)
     [example_row 2 ''R'' ''BOS'' 70 12, example_row 1 ''Q'' ''BOS'' 80 9] = 19 \<and>
   calculate_stack_score ((example_row 9 ''P'' ''BOS'' 100 5)\<lparr>TeamRank := Flt (Num 4),
        FinalsGames := Flt (Num 4), FinalsMult := Flt (Num 1.05)\<rparr>)
     [example_row 3 ''S'' ''BOS'' 60 20, example_row 2 ''R'' ''BOS'' 70 12, example_row 1 ''Q'' ''BOS'' 80 9] = 9"
proof -
  let ?p = "(example_row 9 ''P'' ''BOS'' 100 5)\<lparr>TeamRank := Flt (Num 4), FinalsGames := Flt (Num 4),
        FinalsMult := Flt (Num 1.05)\<rparr>"
  let ?z = "example_row 5 ''Z'' ''LAL'' 85 8"
  let ?q = "example_row 1 ''Q'' ''BOS'' 80 9"
  let ?r = "example_row 2 ''R'' ''BOS'' 70 12"
  let ?s = "example_row 3 ''S'' ''BOS'' 60 20"
  note w = stack_score_shape [of ?p "[?q]" "[?r, ?q]" "[?s, ?r, ?q]" 4 4 "1.05" "[?z]" "[?s, ?r, ?q]"]
  have t0: "team_count ?p [?z] = 0" and t1: "team_count ?p [?q] = 1"
    and t2: "team_count ?p [?r, ?q] = 2" and t3: "3 \<le> team_count ?p [?s, ?r, ?q]"
    by (simp_all add: team_count_def same_team_def example_row_def)
  have f: "TeamRank ?p = Flt (Num 4) \<and> FinalsGames ?p = Flt (Num 4) \<and> FinalsMult ?p = Flt (Num 1.05)"
    by simp
  from w f have q: "quality_bonus ?p = 9" by simp
  from w have e: "calculate_stack_score ?p [] = 0" by blast
  from w t1 q have a: "calculate_stack_score ?p [?q] = 15" by simp
  from w t2 q have b: "calculate_stack_score ?p [?r, ?q] = 19" by simp
  from w t3 q have c: "calculate_stack_score ?p [?s, ?r, ?q] = 9" by simp
  from w t0 t1 t2 t3 have "calculate_stack_score ?p [?z] \<le> calculate_stack_score ?p [?q]" by blast
  with a have z: "calculate_stack_score ?p [?z] \<le> 15" by simp
  from t0 t1 t2 t3 q e z a b c show ?thesis by blast
qed

section \<open>Properties of the metric calculator\<close>

lemma observed_Num: "observed (map Num xs) = xs"
  by (induction xs) simp_all

lemma assign_keep:
  "length col = length df \<Longrightarrow> (\<And>r v. g (upd r v) = g r) \<Longrightarrow> map g (assign upd df col) = map g df"
  by (induction df col rule: list_induct2') (simp_all add: assign_def)

lemma no_nan_Num: "NaN \<notin> set col \<Longrightarrow> col = map Num (observed col)"
  by (induction col rule: observed.induct) simp_all

lemma trunc_of_nat: "trunc (real n) = int n"
  by (simp add: trunc_def)

lemma astype_int_Num: "astype_int (map (\<lambda>v. Num (real (g v))) vs) = Inr (map (\<lambda>v. int (g v)) vs)"
  by (induction vs) (simp_all add: trunc_of_nat)

lemma ranks_ok: "astype_int (rank_min asc (map Num vs)) = Inr (min_ranks asc vs)"
proof -
  have "rank_min asc (map Num vs) =
      map (\<lambda>v. Num (real (Suc (length (filter (\<lambda>w. if asc then w < v else v < w) vs))))) vs"
    by (simp add: rank_min_def observed_Num o_def)
  then show ?thesis
    unfolding min_ranks_def by (simp only: astype_int_Num)
qed

lemma length_min_ranks: "length (min_ranks asc vs) = length vs"
  by (simp add: min_ranks_def)

lemma length_observed: "NaN \<notin> set col \<Longrightarrow> length (observed col) = length col"
  by (induction col rule: observed.induct) simp_all

lemma length_zscore: "zscore a = Inr z \<Longrightarrow> length z = length a"
  by (auto simp: zscore_def Let_def length_observed split: if_splits)

lemma zscore_total: "\<exists>z. zscore a = Inr z"
  by (simp add: zscore_def)

lemma zip3_keep:
  "length xs = length df \<Longrightarrow> length df = length ys \<Longrightarrow> (\<And>r a b. g (upd r a b) = g r) \<Longrightarrow>
     map g (map (\<lambda>(r, a, b). upd r a b) (zip df (zip xs ys))) = map g df"
  by (induction xs df ys rule: list_induct3) simp_all

lemma zip3_snd:
  "length xs = length df \<Longrightarrow> length df = length ys \<Longrightarrow> (\<And>r a b. g (upd r a b) = b) \<Longrightarrow>
     map g (map (\<lambda>(r, a, b). upd r a b) (zip df (zip xs ys))) = ys"
  by (induction xs df ys rule: list_induct3) simp_all

lemma assign_twice:
  "length xs = length df \<Longrightarrow> length df = length ys \<Longrightarrow>
     map g (assign ub (assign ua df xs) ys) = map (\<lambda>(r, a, b). g (ub (ua r a) b)) (zip df (zip xs ys))"
  by (induction xs df ys rule: list_induct3) (simp_all add: assign_def)

lemma add_rankings_eq:
  assumes "NaN \<notin> set (map FinalAdjGPP df)" "NaN \<notin> set (map ADP df)"
  shows "add_rankings df =
     Inr (map (\<lambda>(r, a, b). r\<lparr>FinalAdjGPP_Rank := a, ADP_Rank := b, ValueScore := b - a\<rparr>)
            (zip df (zip (min_ranks False (observed (map FinalAdjGPP df)))
                         (min_ranks True (observed (map ADP df))))))"
proof -
  let ?fr = "min_ranks False (observed (map FinalAdjGPP df))"
  let ?ar = "min_ranks True (observed (map ADP df))"
  have lf: "length ?fr = length df"
    using assms(1) by (simp add: length_min_ranks length_observed)
  have la: "length df = length ?ar"
    using assms(2) by (simp add: length_min_ranks length_observed)
  have f: "astype_int (rank_min False (map FinalAdjGPP df)) = Inr ?fr"
    using ranks_ok [of False "observed (map FinalAdjGPP df)"] no_nan_Num [OF assms(1)] by simp
  have keep: "map ADP (assign (\<lambda>r v. r\<lparr>FinalAdjGPP_Rank := v\<rparr>) df ?fr) = map ADP df"
    using lf by (simp add: assign_keep)
  have a: "astype_int (rank_min True (map ADP (assign (\<lambda>r v. r\<lparr>FinalAdjGPP_Rank := v\<rparr>) df ?fr))) = Inr ?ar"
    unfolding keep using ranks_ok [of True "observed (map ADP df)"] no_nan_Num [OF assms(2)] by simp
  have "map (\<lambda>r. r\<lparr>ValueScore := ADP_Rank r - FinalAdjGPP_Rank r\<rparr>)
          (assign (\<lambda>r v. r\<lparr>ADP_Rank := v\<rparr>) (assign (\<lambda>r v. r\<lparr>FinalAdjGPP_Rank := v\<rparr>) df ?fr) ?ar) =
        map (\<lambda>(r, a, b). r\<lparr>FinalAdjGPP_Rank := a, ADP_Rank := b, ValueScore := b - a\<rparr>)
            (zip df (zip ?fr ?ar))"
    using assign_twice [where g = "\<lambda>r. r\<lparr>ValueScore := ADP_Rank r - FinalAdjGPP_Rank r\<rparr>"
        and ub = "\<lambda>r v. r\<lparr>ADP_Rank := v\<rparr>" and ua = "\<lambda>r v. r\<lparr>FinalAdjGPP_Rank := v\<rparr>", OF lf la]
    by simp
  then show ?thesis
    by (simp add: add_rankings_def f a)
qed

lemma fillna_not_nan [simp]: "fillna v x \<noteq> NaN"
  by (cases x) simp_all

lemma nan_not_fillna [simp]: "NaN \<noteq> fillna v x"
  by (cases x) simp_all

lemma fgt_fillna_0 [simp]: "fgt (fillna 0 x) 0 = fgt x 0"
  by (cases x) simp_all

lemma fillna_fillna [simp]: "fillna w (fillna v x) = fillna v x"
  by (cases x) simp_all

lemma fgt_fillna_id: "fgt x 0 \<Longrightarrow> fillna v x = x"
  by (cases x) simp_all

lemma map_ADP_ensure_ID: "map ADP (ensure_ID f) = map ADP (table f)"
  by (simp add: ensure_ID_def assign_keep)

lemma filter_admitted_ensure_ID:
  "map g (filter admitted (ensure_ID f)) = map g (filter admitted (table f))"
  if "\<And>r v. g (r\<lparr>ID := v\<rparr>) = g r"
proof (cases "has_ID f")
  case True
  then show ?thesis by (simp add: ensure_ID_def)
next
  case False
  have "\<And>ns. length ns = length xs \<Longrightarrow>
      map g (filter admitted (assign (\<lambda>r v. r\<lparr>ID := v\<rparr>) xs ns)) = map g (filter admitted xs)" for xs
  proof -
    fix ns :: "int list"
    show "length ns = length xs \<Longrightarrow>
      map g (filter admitted (assign (\<lambda>r v. r\<lparr>ID := v\<rparr>) xs ns)) = map g (filter admitted xs)"
      by (induction xs ns rule: list_induct2') (simp_all add: assign_def admitted_def that)
  qed
  with False show ?thesis by (simp add: ensure_ID_def)
qed

lemma drop_invalid_fill_required:
  "drop_invalid (fill_required h X) =
     map (\<lambda>r. r\<lparr>ShutdownRisk := fillna_cell 0.5 (ShutdownRisk r),
               R2Mult := fillna_cell 1.0 (R2Mult r),
               R3Mult := fillna_cell 1.0 (R3Mult r),
               FinalsMult := fillna_cell 1.0 (FinalsMult r),
               TeamRank := fillna_cell 15 (TeamRank r),
               R2Games := fillna_cell 3 (R2Games r),
               R3Games := fillna_cell 3 (R3Games r),
               FinalsGames := fillna_cell 3 (FinalsGames r),
               ADP := (if h then fillna 999 (ADP r) else Num 999)\<rparr>)
       (filter admitted X)"
  by (induction X) (simp_all add: drop_invalid_def fill_required_def admitted_def fgt_fillna_id)

lemma filter_admitted_ADP:
  "filter admitted (map (\<lambda>r. r\<lparr>ADP := a r\<rparr>) Y) = map (\<lambda>r. r\<lparr>ADP := a r\<rparr>) (filter admitted Y)"
  by (induction Y) (simp_all add: admitted_def)

lemma fill_missing_ADP_eq:
  "fill_missing_ADP (has_ADP f) (ensure_ID f) =
     map (\<lambda>r. r\<lparr>ADP := (if has_ADP f then fillna (adp_fill f) (ADP r) else ADP r)\<rparr>) (ensure_ID f)"
  by (simp add: fill_missing_ADP_def adp_fill_def map_ADP_ensure_ID Let_def)

lemma cleaned_eq:
  "cleaned f =
     map (\<lambda>r. r\<lparr>ShutdownRisk := fillna_cell 0.5 (ShutdownRisk r),
               R2Mult := fillna_cell 1.0 (R2Mult r),
               R3Mult := fillna_cell 1.0 (R3Mult r),
               FinalsMult := fillna_cell 1.0 (FinalsMult r),
               TeamRank := fillna_cell 15 (TeamRank r),
               R2Games := fillna_cell 3 (R2Games r),
               R3Games := fillna_cell 3 (R3Games r),
               FinalsGames := fillna_cell 3 (FinalsGames r),
               ADP := (if has_ADP f then fillna (adp_fill f) (ADP r) else Num 999)\<rparr>)
       (filter admitted (ensure_ID f))"
  unfolding cleaned_def fill_missing_ADP_eq drop_invalid_fill_required filter_admitted_ADP
  by (simp add: o_def)

lemma cleaned_FinalAdjGPP: "map FinalAdjGPP (cleaned f) = map FinalAdjGPP (filter admitted (table f))"
  unfolding cleaned_eq by (simp add: o_def filter_admitted_ensure_ID)

lemma cleaned_ADP:
  "map ADP (cleaned f) =
     map (\<lambda>r. if has_ADP f then fillna (adp_fill f) (ADP r) else Num 999) (filter admitted (table f))"
  unfolding cleaned_eq
  using filter_admitted_ensure_ID [of "\<lambda>r. if has_ADP f then fillna (adp_fill f) (ADP r) else Num 999" f]
  by (simp add: o_def)

lemma cleaned_ID: "map ID (cleaned f) = map ID (filter admitted (ensure_ID f))"
  unfolding cleaned_eq by (simp add: o_def)

lemma cleaned_no_nan:
  "NaN \<notin> set (map FinalAdjGPP (cleaned f))" "NaN \<notin> set (map ADP (cleaned f))"
  unfolding cleaned_FinalAdjGPP cleaned_ADP by (auto simp: admitted_def)

lemma add_zscores_eq:
  "\<exists>zf za. zscore (map FinalAdjGPP df) = Inr zf \<and> zscore (map (\<lambda>r. fneg (ADP r)) df) = Inr za \<and>
     add_zscores df = map (\<lambda>(r, a, b). r\<lparr>zFinal := a, zADP := b, ValueZ := fsub a b\<rparr>) (zip df (zip zf za))"
proof -
  obtain zf where zf: "zscore (map FinalAdjGPP df) = Inr zf"
    using zscore_total by blast
  obtain za where za: "zscore (map (\<lambda>r. fneg (ADP r)) df) = Inr za"
    using zscore_total by blast
  have lf: "length zf = length df" using length_zscore [OF zf] by simp
  have la: "length df = length za" using length_zscore [OF za] by simp
  have "map (\<lambda>r. r\<lparr>ValueZ := fsub (zFinal r) (zADP r)\<rparr>)
          (assign (\<lambda>r v. r\<lparr>zADP := v\<rparr>) (assign (\<lambda>r v. r\<lparr>zFinal := v\<rparr>) df zf) za) =
        map (\<lambda>(r, a, b). r\<lparr>zFinal := a, zADP := b, ValueZ := fsub a b\<rparr>) (zip df (zip zf za))"
    using assign_twice [where g = "\<lambda>r. r\<lparr>ValueZ := fsub (zFinal r) (zADP r)\<rparr>"
        and ub = "\<lambda>r v. r\<lparr>zADP := v\<rparr>" and ua = "\<lambda>r v. r\<lparr>zFinal := v\<rparr>", OF lf la]
    by simp
  then show ?thesis
    by (simp add: add_zscores_def zf za)
qed

lemma add_zscores_keep:
  assumes "\<And>r a b. g (r\<lparr>zFinal := a, zADP := b, ValueZ := fsub a b\<rparr>) = g r"
  shows "map g (add_zscores df) = map g df"
proof -
  obtain zf za where z: "zscore (map FinalAdjGPP df) = Inr zf" "zscore (map (\<lambda>r. fneg (ADP r)) df) = Inr za"
    and e: "add_zscores df = map (\<lambda>(r, a, b). r\<lparr>zFinal := a, zADP := b, ValueZ := fsub a b\<rparr>) (zip df (zip zf za))"
    using add_zscores_eq by blast
  have lf: "length zf = length df" using length_zscore [OF z(1)] by simp
  have la: "length df = length za" using length_zscore [OF z(2)] by simp
  show ?thesis
    unfolding e
    using zip3_keep [where upd = "\<lambda>r a b. r\<lparr>zFinal := a, zADP := b, ValueZ := fsub a b\<rparr>" and g = g, OF lf la]
      assms by simp
qed

lemma add_value_alert_keep:
  "(\<And>r a. g (r\<lparr>ValueAlert := a\<rparr>) = g r) \<Longrightarrow> map g (add_value_alert df) = map g df"
  by (simp add: add_value_alert_def o_def)

lemma process_data_eq:
  "process_data (Some f) =
     Inr (Some (add_value_alert (add_zscores
       (map (\<lambda>(r, a, b). r\<lparr>FinalAdjGPP_Rank := a, ADP_Rank := b, ValueScore := b - a\<rparr>)
            (zip (cleaned f) (zip (min_ranks False (observed (map FinalAdjGPP (cleaned f))))
                                  (min_ranks True (observed (map ADP (cleaned f))))))))))"
  using add_rankings_eq [OF cleaned_no_nan, of f]
  by (simp add: process_data_def cleaned_def)

lemma ranked_keep:
  assumes "\<And>r a b. g (r\<lparr>FinalAdjGPP_Rank := a, ADP_Rank := b, ValueScore := b - a\<rparr>) = g r"
  shows "map g (map (\<lambda>(r, a, b). r\<lparr>FinalAdjGPP_Rank := a, ADP_Rank := b, ValueScore := b - a\<rparr>)
            (zip (cleaned f) (zip (min_ranks False (observed (map FinalAdjGPP (cleaned f))))
                                  (min_ranks True (observed (map ADP (cleaned f))))))) = map g (cleaned f)"
proof -
  have lf: "length (min_ranks False (observed (map FinalAdjGPP (cleaned f)))) = length (cleaned f)"
    using cleaned_no_nan(1) [of f] by (simp add: length_min_ranks length_observed)
  have la: "length (cleaned f) = length (min_ranks True (observed (map ADP (cleaned f))))"
    using cleaned_no_nan(2) [of f] by (simp add: length_min_ranks length_observed)
  show ?thesis
    using zip3_keep [where upd = "\<lambda>r a b. r\<lparr>FinalAdjGPP_Rank := a, ADP_Rank := b, ValueScore := b - a\<rparr>"
        and g = g, OF lf la] assms by simp
qed

lemma column_raw:
  assumes "\<And>r a b. g (r\<lparr>FinalAdjGPP_Rank := a, ADP_Rank := b, ValueScore := b - a\<rparr>) = g r"
    and "\<And>r a b. g (r\<lparr>zFinal := a, zADP := b, ValueZ := fsub a b\<rparr>) = g r"
    and "\<And>r a. g (r\<lparr>ValueAlert := a\<rparr>) = g r"
  shows "column g (process_data (Some f)) = Inr (Some (map g (cleaned f)))"
proof -
  have "map g (add_value_alert (add_zscores
       (map (\<lambda>(r, a, b). r\<lparr>FinalAdjGPP_Rank := a, ADP_Rank := b, ValueScore := b - a\<rparr>)
            (zip (cleaned f) (zip (min_ranks False (observed (map FinalAdjGPP (cleaned f))))
                                  (min_ranks True (observed (map ADP (cleaned f))))))))) = map g (cleaned f)"
    unfolding add_value_alert_keep [of g, OF assms(3)] add_zscores_keep [of g, OF assms(2)]
      ranked_keep [of g, OF assms(1)] ..
  then show ?thesis
    unfolding process_data_eq column_def by simp
qed

lemma foldl_max_Max: "foldl max v vs = Max (set (v # vs))"
  for v :: real
proof (induction vs arbitrary: v)
  case Nil
  show ?case by simp
next
  case (Cons w ws)
  have "Max (set (v # w # ws)) = Max (set (max v w # ws))"
    by (cases "ws = []") (simp_all add: max.assoc)
  with Cons [of "max v w"] show ?case by simp
qed

lemma series_max_observed:
  "observed col \<noteq> [] \<Longrightarrow> series_max col = Num (Max (set (observed col)))"
  by (cases "observed col") (simp_all add: series_max_def foldl_max_Max)

lemma series_max_none: "observed col = [] \<Longrightarrow> series_max col = NaN"
  by (simp add: series_max_def)

lemma observed_Nil_all_nan: "observed col = [] \<Longrightarrow> c \<in> set col \<Longrightarrow> c = NaN"
  by (induction col rule: observed.induct) auto

lemma ids_by_position:
  "map ID (filter admitted (assign (\<lambda>r v. r\<lparr>ID := v\<rparr>) xs (map int [0..<length xs]))) =
     map int (filter (\<lambda>i. admitted (xs ! i)) [0..<length xs])"
proof (induction xs rule: rev_induct)
  case Nil
  show ?case by (simp add: assign_def)
next
  case (snoc x xs)
  have f: "filter (\<lambda>i. admitted ((xs @ [x]) ! i)) [0..<length xs] =
      filter (\<lambda>i. admitted (xs ! i)) [0..<length xs]"
    by (rule filter_cong) (simp_all add: nth_append)
  have a: "admitted (x\<lparr>ID := v\<rparr>) = admitted x" for v
    by (simp add: admitted_def)
  from snoc show ?case
    by (simp add: assign_def f a)
qed

lemma sorted_kept: "sorted_wrt (<) (map int (filter P [0..<n]))"
proof -
  have "sorted_wrt (<) (filter P [0..<n])"
    by (rule sorted_wrt_filter) simp
  then show ?thesis
    by (simp add: sorted_wrt_map)
qed

lemma distinct_kept: "distinct (map int (filter P [0..<n]))"
  by (simp add: distinct_map)

lemma column_ADP:
  "column ADP (process_data (Some f)) =
     Inr (Some (map (\<lambda>r. if has_ADP f then fillna (adp_fill f) (ADP r) else Num 999)
                  (filter admitted (table f))))"
  by (simp add: column_raw cleaned_ADP)

lemma column_ADP_Rank:
  "column ADP_Rank (process_data (Some f)) = Inr (Some (min_ranks True (observed (map ADP (cleaned f)))))"
proof -
  have lf: "length (min_ranks False (observed (map FinalAdjGPP (cleaned f)))) = length (cleaned f)"
    using cleaned_no_nan(1) [of f] by (simp add: length_min_ranks length_observed)
  have la: "length (cleaned f) = length (min_ranks True (observed (map ADP (cleaned f))))"
    using cleaned_no_nan(2) [of f] by (simp add: length_min_ranks length_observed)
  have "map ADP_Rank (add_value_alert (add_zscores
       (map (\<lambda>(r, a, b). r\<lparr>FinalAdjGPP_Rank := a, ADP_Rank := b, ValueScore := b - a\<rparr>)
            (zip (cleaned f) (zip (min_ranks False (observed (map FinalAdjGPP (cleaned f))))
                                  (min_ranks True (observed (map ADP (cleaned f))))))))) =
        min_ranks True (observed (map ADP (cleaned f)))"
    unfolding add_value_alert_keep [of ADP_Rank, simplified] add_zscores_keep [of ADP_Rank, simplified]
    using zip3_snd [where upd = "\<lambda>r a b. r\<lparr>FinalAdjGPP_Rank := a, ADP_Rank := b, ValueScore := b - a\<rparr>"
        and g = ADP_Rank, OF lf la] by simp
  then show ?thesis
    unfolding process_data_eq column_def by simp
qed

lemmas pd_defs = column_def process_data_def example_row_def ensure_ID_def assign_def fill_missing_ADP_def
  series_max_def fill_required_def drop_invalid_def add_rankings_def rank_min_def trunc_def
  add_zscores_def zscore_def add_value_alert_def Let_def

text \<open>
  C1.  For an upload of three players with projections 100, 90, 90 and ADP 5, 1, 2, whatever
  their other entries and with or without an id column, \<open>process_data\<close> returns the
  projection ranks 1, 2, 2 (descending, ties share the best rank), the ADP ranks 3, 1, 2
  (ascending) and the value scores 2, -1, 0.
\<close>

theorem three_player_scenario:
  "column FinalAdjGPP_Rank (process_data (Some \<lparr>has_ID = h, has_ADP = True, table =
      [a\<lparr>Name := Some na, Position := Some pa, Team := Some ta, FinalAdjGPP := Num 100, ADP := Num 5\<rparr>,
       b\<lparr>Name := Some nb, Position := Some pb, Team := Some tb, FinalAdjGPP := Num 90, ADP := Num 1\<rparr>,
       c\<lparr>Name := Some nc, Position := Some pc, Team := Some tc, FinalAdjGPP := Num 90, ADP := Num 2\<rparr>]\<rparr>)) =
     Inr (Some [1, 2, 2]) \<and>
   column ADP_Rank (process_data (Some \<lparr>has_ID = h, has_ADP = True, table =
      [a\<lparr>Name := Some na, Position := Some pa, Team := Some ta, FinalAdjGPP := Num 100, ADP := Num 5\<rparr>,
       b\<lparr>Name := Some nb, Position := Some pb, Team := Some tb, FinalAdjGPP := Num 90, ADP := Num 1\<rparr>,
       c\<lparr>Name := Some nc, Position := Some pc, Team := Some tc, FinalAdjGPP := Num 90, ADP := Num 2\<rparr>]\<rparr>)) =
     Inr (Some [3, 1, 2]) \<and>
   column ValueScore (process_data (Some \<lparr>has_ID = h, has_ADP = True, table =
      [a\<lparr>Name := Some na, Position := Some pa, Team := Some ta, FinalAdjGPP := Num 100, ADP := Num 5\<rparr>,
       b\<lparr>Name := Some nb, Position := Some pb, Team := Some tb, FinalAdjGPP := Num 90, ADP := Num 1\<rparr>,
       c\<lparr>Name := Some nc, Position := Some pc, Team := Some tc, FinalAdjGPP := Num 90, ADP := Num 2\<rparr>]\<rparr>)) =
     Inr (Some [2, - 1, 0])"
proof -
  let ?f = "\<lparr>has_ID = h, has_ADP = True, table =
      [a\<lparr>Name := Some na, Position := Some pa, Team := Some ta, FinalAdjGPP := Num 100, ADP := Num 5\<rparr>,
       b\<lparr>Name := Some nb, Position := Some pb, Team := Some tb, FinalAdjGPP := Num 90, ADP := Num 1\<rparr>,
       c\<lparr>Name := Some nc, Position := Some pc, Team := Some tc, FinalAdjGPP := Num 90, ADP := Num 2\<rparr>]\<rparr>"
  have fin: "observed (map FinalAdjGPP (cleaned ?f)) = [100, 90, 90]"
    unfolding cleaned_FinalAdjGPP by (simp add: admitted_def)
  have adp: "observed (map ADP (cleaned ?f)) = [5, 1, 2]"
    unfolding cleaned_ADP by (simp add: admitted_def)
  have fr: "min_ranks False [100, 90, 90] = [1, 2, 2]"
    by (simp add: min_ranks_def)
  have ar: "min_ranks True [5, 1, 2] = [3, 1, 2]"
    by (simp add: min_ranks_def)
  have len: "length (cleaned ?f) = 3"
    using arg_cong [OF cleaned_FinalAdjGPP [of ?f], of length] by (simp add: admitted_def)
  then obtain x y z where c: "cleaned ?f = [x, y, z]"
    by (auto simp: length_Suc_conv numeral_3_eq_3)
  have e: "process_data (Some ?f) = Inr (Some (add_value_alert (add_zscores
       [x\<lparr>FinalAdjGPP_Rank := 1, ADP_Rank := 3, ValueScore := 2\<rparr>,
        y\<lparr>FinalAdjGPP_Rank := 2, ADP_Rank := 1, ValueScore := - 1\<rparr>,
        z\<lparr>FinalAdjGPP_Rank := 2, ADP_Rank := 2, ValueScore := 0\<rparr>])))"
    by (simp only: process_data_eq fin adp fr ar) (simp add: c)
  show ?thesis
    unfolding column_def e
    by (simp add: add_value_alert_keep [of FinalAdjGPP_Rank, simplified]
        add_value_alert_keep [of ADP_Rank, simplified] add_value_alert_keep [of ValueScore, simplified]
        add_zscores_keep [of FinalAdjGPP_Rank, simplified] add_zscores_keep [of ADP_Rank, simplified]
        add_zscores_keep [of ValueScore, simplified])
qed

text \<open>
  C7 at a table whose two projections are equal.  The z-score of the projections does not
  raise: it returns \<open>NaN\<close> for both rows, so the \<^verbatim>\<open>except\<close> branch that would set
  0 is not taken, and \<open>ValueZ\<close> is \<open>NaN\<close> in both rows instead of 0.
\<close>

theorem constant_projection_yields_nan:
  "zscore [Num 100, Num 100] = Inr [NaN, NaN] \<and>
   column zFinal (process_data (Some \<lparr>has_ID = False, has_ADP = True, table =
      [example_row 0 ''A'' ''BOS'' 100 1, example_row 0 ''B'' ''LAL'' 100 3]\<rparr>)) = Inr (Some [NaN, NaN]) \<and>
   column zADP (process_data (Some \<lparr>has_ID = False, has_ADP = True, table =
      [example_row 0 ''A'' ''BOS'' 100 1, example_row 0 ''B'' ''LAL'' 100 3]\<rparr>)) = Inr (Some [Num 1, Num (- 1)]) \<and>
   column ValueZ (process_data (Some \<lparr>has_ID = False, has_ADP = True, table =
      [example_row 0 ''A'' ''BOS'' 100 1, example_row 0 ''B'' ''LAL'' 100 3]\<rparr>)) = Inr (Some [NaN, NaN])"
  by (simp add: pd_defs)

text \<open>
  C8, as the code has it.  The ADP column that \<open>process_data\<close> returns holds, for the rows
  that survive the cleaning: with an ADP column that has an observed value, every missing
  entry replaced by the largest observed ADP of the upload plus 100; with an ADP column
  whose entries are all missing, 1099 (the stand-in maximum 999 plus 100) in every row; and
  999 in every row only when the upload has no ADP column.  The ADP ranks are the minimum
  ranks of this filled column.
\<close>

theorem adp_missing_policy:
  "(has_ADP fa \<and> observed (map ADP (table fa)) \<noteq> [] \<longrightarrow>
      column ADP (process_data (Some fa)) =
        Inr (Some (map (\<lambda>r. fillna (Max (set (observed (map ADP (table fa)))) + 100) (ADP r))
                     (filter admitted (table fa))))) \<and>
   (has_ADP fb \<and> observed (map ADP (table fb)) = [] \<longrightarrow>
      column ADP (process_data (Some fb)) =
        Inr (Some (map (\<lambda>r. Num 1099) (filter admitted (table fb))))) \<and>
   (\<not> has_ADP fc \<longrightarrow>
      column ADP (process_data (Some fc)) =
        Inr (Some (map (\<lambda>r. Num 999) (filter admitted (table fc))))) \<and>
   column ADP_Rank (process_data (Some f)) =
     map_sum id (map_option (\<lambda>col. min_ranks True (observed col))) (column ADP (process_data (Some f)))"
proof (intro conjI impI)
  assume a: "has_ADP fa \<and> observed (map ADP (table fa)) \<noteq> []"
  then have "adp_fill fa = Max (set (observed (map ADP (table fa)))) + 100"
    by (simp add: adp_fill_def series_max_observed)
  with a show "column ADP (process_data (Some fa)) =
        Inr (Some (map (\<lambda>r. fillna (Max (set (observed (map ADP (table fa)))) + 100) (ADP r))
                     (filter admitted (table fa))))"
    by (simp add: column_ADP)
next
  assume b: "has_ADP fb \<and> observed (map ADP (table fb)) = []"
  then have v: "adp_fill fb = 1099"
    by (simp add: adp_fill_def series_max_none)
  have "\<And>r. r \<in> set (table fb) \<Longrightarrow> ADP r = NaN"
    using b observed_Nil_all_nan [of "map ADP (table fb)"] by auto
  then have "map (\<lambda>r. fillna 1099 (ADP r)) (filter admitted (table fb)) =
      map (\<lambda>r. Num 1099) (filter admitted (table fb))"
    by (intro map_cong refl) simp
  with b v show "column ADP (process_data (Some fb)) =
        Inr (Some (map (\<lambda>r. Num 1099) (filter admitted (table fb))))"
    by (simp add: column_ADP)
next
  assume "\<not> has_ADP fc"
  then show "column ADP (process_data (Some fc)) =
        Inr (Some (map (\<lambda>r. Num 999) (filter admitted (table fc))))"
    by (simp add: column_ADP)
next
  have "column ADP (process_data (Some f)) = Inr (Some (map ADP (cleaned f)))"
    by (simp add: column_raw)
  then show "column ADP_Rank (process_data (Some f)) =
     map_sum id (map_option (\<lambda>col. min_ranks True (observed col))) (column ADP (process_data (Some f)))"
    by (simp add: column_ADP_Rank)
qed

theorem adp_missing_policy_witness:
  "has_ADP \<lparr>has_ID = False, has_ADP = True, table =
      [example_row 0 ''A'' ''BOS'' 100 5, (example_row 0 ''B'' ''LAL'' 90 1)\<lparr>ADP := NaN\<rparr>]\<rparr> \<and>
   observed (map ADP (table \<lparr>has_ID = False, has_ADP = True, table =
      [example_row 0 ''A'' ''BOS'' 100 5, (example_row 0 ''B'' ''LAL'' 90 1)\<lparr>ADP := NaN\<rparr>]\<rparr>)) \<noteq> [] \<and>
   column ADP (process_data (Some \<lparr>has_ID = False, has_ADP = True, table =
      [example_row 0 ''A'' ''BOS'' 100 5, (example_row 0 ''B'' ''LAL'' 90 1)\<lparr>ADP := NaN\<rparr>]\<rparr>)) =
     Inr (Some [Num 5, Num 105]) \<and>
   column ADP_Rank (process_data (Some \<lparr>has_ID = False, has_ADP = True, table =
      [example_row 0 ''A'' ''BOS'' 100 5, (example_row 0 ''B'' ''LAL'' 90 1)\<lparr>ADP := NaN\<rparr>]\<rparr>)) =
     Inr (Some [1, 2]) \<and>
   has_ADP \<lparr>has_ID = False, has_ADP = True, table = [(example_row 0 ''C'' ''NYK'' 80 7)\<lparr>ADP := NaN\<rparr>]\<rparr> \<and>
   observed (map ADP (table \<lparr>has_ID = False, has_ADP = True, table =
      [(example_row 0 ''C'' ''NYK'' 80 7)\<lparr>ADP := NaN\<rparr>]\<rparr>)) = [] \<and>
   column ADP (process_data (Some \<lparr>has_ID = False, has_ADP = True, table =
      [(example_row 0 ''C'' ''NYK'' 80 7)\<lparr>ADP := NaN\<rparr>]\<rparr>)) = Inr (Some [Num 1099]) \<and>
   \<not> has_ADP \<lparr>has_ID = False, has_ADP = False, table = [example_row 0 ''D'' ''MIA'' 70 3]\<rparr> \<and>
   column ADP (process_data (Some \<lparr>has_ID = False, has_ADP = False, table =
      [example_row 0 ''D'' ''MIA'' 70 3]\<rparr>)) = Inr (Some [Num 999])"
proof -
  let ?fa = "\<lparr>has_ID = False, has_ADP = True, table =
      [example_row 0 ''A'' ''BOS'' 100 5, (example_row 0 ''B'' ''LAL'' 90 1)\<lparr>ADP := NaN\<rparr>]\<rparr>"
  let ?fb = "\<lparr>has_ID = False, has_ADP = True, table = [(example_row 0 ''C'' ''NYK'' 80 7)\<lparr>ADP := NaN\<rparr>]\<rparr>"
  let ?fc = "\<lparr>has_ID = False, has_ADP = False, table = [example_row 0 ''D'' ''MIA'' 70 3]\<rparr>"
  note w = adp_missing_policy [of ?fa ?fb ?fc ?fa]
  have oa: "observed (map ADP (table ?fa)) = [5]"
    by (simp add: example_row_def)
  have ob: "observed (map ADP (table ?fb)) = []"
    by (simp add: example_row_def)
  have aa: "filter admitted (table ?fa) = table ?fa"
    by (simp add: admitted_def example_row_def)
  have ab: "filter admitted (table ?fb) = table ?fb"
    by (simp add: admitted_def example_row_def)
  have ac: "filter admitted (table ?fc) = table ?fc"
    by (simp add: admitted_def example_row_def)
  from w have 1: "column ADP (process_data (Some ?fa)) = Inr (Some [Num 5, Num 105])"
    unfolding oa aa by (simp add: example_row_def)
  from w have 2: "column ADP (process_data (Some ?fb)) = Inr (Some [Num 1099])"
    unfolding ob ab by simp
  from w have 3: "column ADP (process_data (Some ?fc)) = Inr (Some [Num 999])"
    unfolding ac by simp
  from w have 4: "column ADP_Rank (process_data (Some ?fa)) = Inr (Some [1, 2])"
    unfolding 1 by (simp add: min_ranks_def)
  from 1 2 3 4 oa ob show ?thesis by simp
qed

text \<open>
  C8 as written fails in its second part: with an ADP column whose entries are all missing
  the substituted value is 1099, not 999.
\<close>

theorem all_missing_adp_gets_1099:
  "column ADP (process_data (Some \<lparr>has_ID = False, has_ADP = True, table =
      [(example_row 0 ''A'' ''BOS'' 100 5)\<lparr>ADP := NaN\<rparr>,
       (example_row 0 ''B'' ''LAL'' 90 1)\<lparr>ADP := NaN\<rparr>]\<rparr>)) = Inr (Some [Num 1099, Num 1099])"
  by (simp add: pd_defs)

text \<open>
  C10, as the code has it.  When the upload has no id column, the ids are the positions in
  the upload, assigned before the cleaning: the rows that remain carry the positions they
  had, so the ids are distinct, increasing and below the number of uploaded rows, with a
  gap wherever a row was dropped; they are \<open>0, 1, ...\<close> without gaps when no row is dropped.
\<close>

theorem ids_after_cleaning:
  "(\<not> has_ID f \<longrightarrow>
      column ID (process_data (Some f)) =
        Inr (Some (map int (filter (\<lambda>i. admitted (table f ! i)) [0..<length (table f)])))) \<and>
   distinct (map int (filter (\<lambda>i. admitted (table f ! i)) [0..<length (table f)])) \<and>
   sorted_wrt (<) (map int (filter (\<lambda>i. admitted (table f ! i)) [0..<length (table f)])) \<and>
   set (map int (filter (\<lambda>i. admitted (table f ! i)) [0..<length (table f)])) \<subseteq>
     {0..<int (length (table f))} \<and>
   (\<not> has_ID g \<and> list_all admitted (table g) \<longrightarrow>
      column ID (process_data (Some g)) = Inr (Some (map int [0..<length (table g)])))"
proof (intro conjI impI)
  show ids: "column ID (process_data (Some f)) =
        Inr (Some (map int (filter (\<lambda>i. admitted (table f ! i)) [0..<length (table f)])))"
    if "\<not> has_ID f" for f
    using that by (simp add: column_raw cleaned_ID ensure_ID_def ids_by_position)
  show "distinct (map int (filter (\<lambda>i. admitted (table f ! i)) [0..<length (table f)]))"
    by (rule distinct_kept)
  show "sorted_wrt (<) (map int (filter (\<lambda>i. admitted (table f ! i)) [0..<length (table f)]))"
    by (rule sorted_kept)
  show "set (map int (filter (\<lambda>i. admitted (table f ! i)) [0..<length (table f)])) \<subseteq>
     {0..<int (length (table f))}"
    by auto
  assume g: "\<not> has_ID g \<and> list_all admitted (table g)"
  then have "filter (\<lambda>i. admitted (table g ! i)) [0..<length (table g)] = [0..<length (table g)]"
    by (simp add: list_all_length)
  with g ids [of g] show "column ID (process_data (Some g)) = Inr (Some (map int [0..<length (table g)]))"
    by simp
qed

theorem ids_after_cleaning_witness:
  "\<not> has_ID \<lparr>has_ID = False, has_ADP = True, table =
      [example_row 0 ''A'' ''BOS'' 0 5, example_row 0 ''B'' ''LAL'' 90 1, example_row 0 ''C'' ''NYK'' 80 2]\<rparr> \<and>
   column ID (process_data (Some \<lparr>has_ID = False, has_ADP = True, table =
      [example_row 0 ''A'' ''BOS'' 0 5, example_row 0 ''B'' ''LAL'' 90 1, example_row 0 ''C'' ''NYK'' 80 2]\<rparr>)) =
     Inr (Some [1, 2]) \<and>
   list_all admitted [example_row 0 ''B'' ''LAL'' 90 1, example_row 0 ''C'' ''NYK'' 80 2] \<and>
   column ID (process_data (Some \<lparr>has_ID = False, has_ADP = True, table =
      [example_row 0 ''B'' ''LAL'' 90 1, example_row 0 ''C'' ''NYK'' 80 2]\<rparr>)) = Inr (Some [0, 1])"
proof -
  let ?f = "\<lparr>has_ID = False, has_ADP = True, table =
      [example_row 0 ''A'' ''BOS'' 0 5, example_row 0 ''B'' ''LAL'' 90 1, example_row 0 ''C'' ''NYK'' 80 2]\<rparr>"
  let ?g = "\<lparr>has_ID = False, has_ADP = True, table =
      [example_row 0 ''B'' ''LAL'' 90 1, example_row 0 ''C'' ''NYK'' 80 2]\<rparr>"
  note w = ids_after_cleaning [of ?f ?g]
  have k: "filter (\<lambda>i. admitted (table ?f ! i)) [0..<length (table ?f)] = [1, 2]"
    by (simp add: admitted_def example_row_def upt_rec)
  have a: "list_all admitted [example_row 0 ''B'' ''LAL'' 90 1, example_row 0 ''C'' ''NYK'' 80 2]"
    by (simp add: admitted_def example_row_def)
  from w have 1: "column ID (process_data (Some ?f)) = Inr (Some [1, 2])"
    unfolding k by simp
  from w a have 2: "column ID (process_data (Some ?g)) = Inr (Some [0, 1])"
    by (simp add: upt_rec)
  from 1 2 a show ?thesis by simp
qed

text \<open>
  C10 as written fails: the first of two uploaded rows has projection 0 and is dropped, and
  the remaining row keeps id 1, so the ids do not start at 0.
\<close>

theorem dropped_row_leaves_gap:
  "column ID (process_data (Some \<lparr>has_ID = False, has_ADP = True, table =
      [example_row 0 ''A'' ''BOS'' 0 5, example_row 0 ''B'' ''LAL'' 90 1]\<rparr>)) = Inr (Some [1])"
  by (simp add: pd_defs)

end
